theory Spec2Isabelle
  imports Main
begin

section \<open>Feature detection of OpenWebRX (\<^verbatim>\<open>owrx/feature.py\<close>)\<close>

text \<open>
  A shallow embedding of \<^verbatim>\<open>owrx/feature.py\<close>: the time-bounded \<^verbatim>\<open>FeatureCache\<close>,
  the catalog \<^verbatim>\<open>FeatureDetector.features\<close>, the dispatch from requirement names to
  \<^verbatim>\<open>has_<name>\<close> methods, and the probes that spawn subprocesses.

  Everything outside the module (the wall clock, the process environment, the operating
  system's answer to \<^verbatim>\<open>subprocess.Popen\<close>, importable modules, library functions) is a
  field of the record \<open>os\<close>, over which every theorem quantifies. Python exceptions are
  values of the type \<open>exc\<close>; a function that may raise returns \<open>exc + 'a\<close>, with \<open>Inl\<close>
  the raised exception. A function that may never return yields \<open>None\<close>.
\<close>

subsection \<open>Exceptions, logging, time\<close>

text \<open>
  An exception value stands for its class and the subclasses of it, as an
  \<^verbatim>\<open>except\<close> clause sees them. \<open>UnknownFeatureException\<close> carries its message.
\<close>

datatype exc =
    UnknownFeatureException string
  | KeyError string
  | FileNotFoundError
  | TimeoutExpired
  | ImportError
  | ConnectionError
  | RuntimeError
  | TypeError
  | ValueError
  | UnicodeDecodeError
  | OtherError string

datatype level = WARNING | ERROR

type_synonym log_record = "level \<times> string"

text \<open>
  Instants (\<^verbatim>\<open>datetime\<close>) and durations (\<^verbatim>\<open>timedelta\<close>) are counted in microseconds,
  the resolution of both Python types.
\<close>

type_synonym datetime = int
type_synonym timedelta = int

definition timedelta_hours :: "int \<Rightarrow> timedelta" where
  "timedelta_hours h = h * 3600 * 1000000"

subsection \<open>Subprocesses\<close>

text \<open>
  The keyword arguments of \<^verbatim>\<open>subprocess.Popen\<close>. \<open>Inherit\<close> is the default (\<^verbatim>\<open>None\<close>):
  the child shares the caller's stream. \<open>env = None\<close> is the default as well: the child
  inherits \<^verbatim>\<open>os.environ\<close>.
\<close>

datatype stdio = Inherit | DEVNULL | PIPE

record popen_args =
  args :: "string list"
  stdin :: stdio
  stdout :: stdio
  stderr :: stdio
  cwd :: "string option"
  env :: "(string \<rightharpoonup> string) option"

text \<open>
  What a probe observes of a spawned process: the lines the process writes to its
  standard output until end of file (each line with its newline, as \<^verbatim>\<open>readline\<close> and
  iteration over the stream return them), and \<open>wait_result k t\<close>, the outcome of
  \<^verbatim>\<open>wait(timeout=t)\<close> once \<open>k\<close> kill signals have been sent to the process: \<open>Some rc\<close>
  when the process has terminated with return code \<open>rc\<close>, \<open>None\<close> when the timeout
  expires (\<^verbatim>\<open>TimeoutExpired\<close>).
\<close>

record process =
  stdout_lines :: "string list"
  wait_result :: "nat \<Rightarrow> nat \<Rightarrow> int option"

subsection \<open>The host\<close>

text \<open>
  \<open>wall_clock k\<close> is the instant returned by the \<open>k\<close>-th call of \<^verbatim>\<open>datetime.now()\<close>.
  \<open>popen n a\<close> is the answer to the \<open>n\<close>-th call of \<^verbatim>\<open>subprocess.Popen\<close>, made with the
  arguments \<open>a\<close>: an \<^verbatim>\<open>OSError\<close> or a process.
  \<open>temporary_directory\<close> is \<^verbatim>\<open>CoreConfig().get_temporary_directory()\<close>, and
  \<open>config_digital_voice_codecserver\<close> the entry of \<^verbatim>\<open>Config.get()\<close> under that key
  (both from \<^verbatim>\<open>owrx.config\<close>). \<open>shlex_split\<close>, \<open>decode\<close>, \<open>loose_ge\<close> and \<open>strict_ge\<close>
  are the library functions \<^verbatim>\<open>shlex.split\<close>, \<^verbatim>\<open>bytes.decode\<close> and the comparison
  \<^verbatim>\<open>>=\<close> of \<^verbatim>\<open>distutils.version.LooseVersion\<close> and \<^verbatim>\<open>StrictVersion\<close>. The \<open>import_\<close>
  fields are the outcomes of the \<^verbatim>\<open>import\<close> statements: the imported version strings,
  or the exception raised.
\<close>

record os =
  wall_clock :: "nat \<Rightarrow> datetime"
  environ :: "string \<rightharpoonup> string"
  temporary_directory :: string
  popen :: "nat \<Rightarrow> popen_args \<Rightarrow> exc + process"
  shlex_split :: "string \<Rightarrow> exc + string list"
  decode :: "string \<Rightarrow> exc + string"
  loose_ge :: "string \<Rightarrow> string \<Rightarrow> exc + bool"
  strict_ge :: "string \<Rightarrow> string \<Rightarrow> exc + bool"
  import_pycsdr :: "exc + string \<times> string"
  import_digiham :: "exc + string \<times> string"
  import_csdreti :: "exc + string \<times> string"
  import_js8py :: "exc + string"
  import_paho_mqtt :: "exc + string"
  config_digital_voice_codecserver :: "string option"
  MbeSynthesizer_hasAmbe :: "string \<Rightarrow> exc + bool"

text \<open>
  The part of the program state a detection method can change: the number of clock
  readings taken so far, the log, the calls of \<^verbatim>\<open>Popen\<close> made so far (the position of a
  call in this list identifies the process), the processes a kill signal was sent to, and
  \<open>user\<close>, the state of whatever else a subclass or a test double keeps.
\<close>

record 'x world =
  ticks :: nat
  log :: "log_record list"
  popen_calls :: "popen_args list"
  kills :: "nat list"
  user :: 'x

definition datetime_now :: "os \<Rightarrow> 'x world \<Rightarrow> datetime \<times> 'x world" where
  "datetime_now h w = (wall_clock h (ticks w), w\<lparr>ticks := Suc (ticks w)\<rparr>)"

definition logger :: "level \<Rightarrow> string \<Rightarrow> 'x world \<Rightarrow> 'x world" where
  "logger l msg w = w\<lparr>log := log w @ [(l, msg)]\<rparr>"

subsection \<open>\<^verbatim>\<open>FeatureCache\<close>\<close>

text \<open>
  \<^verbatim>\<open>self.cache\<close> maps a name to \<^verbatim>\<open>{"value": ..., "valid_to": ...}\<close>. \<^verbatim>\<open>self.cachetime\<close>
  is assigned once, in \<^verbatim>\<open>__init__\<close>.
\<close>

record cache_entry =
  val :: bool
  valid_to :: datetime

record FeatureCache =
  cache :: "string \<rightharpoonup> cache_entry"
  cachetime :: timedelta

definition FeatureCache_init :: FeatureCache where
  "FeatureCache_init = \<lparr>cache = Map.empty, cachetime = timedelta_hours 2\<rparr>"

definition FeatureCache_has ::
  "os \<Rightarrow> FeatureCache \<Rightarrow> string \<Rightarrow> 'x world \<Rightarrow> bool \<times> 'x world" where
  "FeatureCache_has h self feature w =
     (case cache self feature of
        None \<Rightarrow> (False, w)
      | Some entry \<Rightarrow>
          (let (now, w') = datetime_now h w
           in if valid_to entry < now then (False, w') else (True, w')))"

definition FeatureCache_get :: "FeatureCache \<Rightarrow> string \<Rightarrow> exc + bool" where
  "FeatureCache_get self feature =
     (case cache self feature of
        None \<Rightarrow> Inl (KeyError feature)
      | Some entry \<Rightarrow> Inr (val entry))"

definition FeatureCache_set ::
  "os \<Rightarrow> FeatureCache \<Rightarrow> string \<Rightarrow> bool \<Rightarrow> 'x world \<Rightarrow> FeatureCache \<times> 'x world" where
  "FeatureCache_set h self feature v w =
     (let (now, w') = datetime_now h w;
          valid_to = now + cachetime self
      in (self\<lparr>cache := (cache self)(feature \<mapsto> \<lparr>val = v, valid_to = valid_to\<rparr>)\<rparr>, w'))"

subsection \<open>The catalog\<close>

definition features :: "(string \<times> string list) list" where
  "features =
     [(''core'', [''csdr'']),
      (''rtl_sdr'', [''rtl_connector'']),
      (''rtl_sdr_soapy'', [''soapy_connector'', ''soapy_rtl_sdr'']),
      (''rtl_tcp'', [''rtl_tcp_connector'']),
      (''sdrplay'', [''soapy_connector'', ''soapy_sdrplay'']),
      (''hackrf'', [''soapy_connector'', ''soapy_hackrf'']),
      (''perseussdr'', [''perseustest'', ''nmux'']),
      (''airspy'', [''soapy_connector'', ''soapy_airspy'']),
      (''airspyhf'', [''soapy_connector'', ''soapy_airspyhf'']),
      (''afedri'', [''soapy_connector'', ''soapy_afedri'']),
      (''lime_sdr'', [''soapy_connector'', ''soapy_lime_sdr'']),
      (''fifi_sdr'', [''alsa'', ''rockprog'', ''nmux'']),
      (''pluto_sdr'', [''soapy_connector'', ''soapy_pluto_sdr'']),
      (''soapy_remote'', [''soapy_connector'', ''soapy_remote'']),
      (''uhd'', [''soapy_connector'', ''soapy_uhd'']),
      (''radioberry'', [''soapy_connector'', ''soapy_radioberry'']),
      (''fcdpp'', [''soapy_connector'', ''soapy_fcdpp'']),
      (''bladerf'', [''soapy_connector'', ''soapy_bladerf'']),
      (''sddc'', [''sddc_connector'']),
      (''sddc_soapy'', [''soapy_connector'', ''soapy_sddc'']),
      (''hpsdr'', [''hpsdr_connector'']),
      (''runds'', [''runds_connector'']),
      (''digital_voice_digiham'', [''digiham'', ''codecserver_ambe'']),
      (''digital_voice_freedv'', [''freedv_rx'']),
      (''digital_voice_m17'', [''m17_demod'']),
      (''wsjt-x'', [''wsjtx'']),
      (''wsjt-x-2-3'', [''wsjtx_2_3'']),
      (''wsjt-x-2-4'', [''wsjtx_2_4'']),
      (''msk144'', [''msk144decoder'']),
      (''packet'', [''direwolf'']),
      (''pocsag'', [''digiham'']),
      (''js8call'', [''js8'', ''js8py'']),
      (''drm'', [''dream'']),
      (''dump1090'', [''dump1090'']),
      (''ism'', [''rtl_433'']),
      (''dumphfdl'', [''dumphfdl'']),
      (''dumpvdl2'', [''dumpvdl2'']),
      (''redsea'', [''redsea'']),
      (''dab'', [''csdreti'', ''dablin'']),
      (''mqtt'', [''paho_mqtt''])]"

subsection \<open>Detector dispatch\<close>

text \<open>
  The program state: the class attribute \<^verbatim>\<open>FeatureCache.sharedInstance\<close> (\<open>None\<close> until
  the first call of \<^verbatim>\<open>getSharedInstance\<close>) and the world. The shared instance is the only
  \<^verbatim>\<open>FeatureCache\<close> object the module constructs, so a reference to it is the slot, and a
  mutation through the reference updates the slot.
\<close>

record 'x state =
  sharedInstance :: "FeatureCache option"
  world :: "'x world"

definition getSharedInstance :: "'x state \<Rightarrow> FeatureCache \<times> 'x state" where
  "getSharedInstance s =
     (case sharedInstance s of
        None \<Rightarrow> (FeatureCache_init, s\<lparr>sharedInstance := Some FeatureCache_init\<rparr>)
      | Some c \<Rightarrow> (c, s))"

text \<open>
  A detection method takes no argument and returns a boolean, may raise, and may never
  return. No method of the module touches the cache, so a method acts on the world.
  \<open>and_then\<close> is the sequencing of two statements: an exception raised by the first,
  or its divergence, is the outcome of both.
\<close>

type_synonym ('a, 'x) outcome = "((exc + 'a) \<times> 'x world) option"

type_synonym 'x strategy = "os \<Rightarrow> 'x world \<Rightarrow> (bool, 'x) outcome"

definition and_then ::
  "('a, 'x) outcome \<Rightarrow> ('a \<Rightarrow> 'x world \<Rightarrow> ('b, 'x) outcome) \<Rightarrow> ('b, 'x) outcome" where
  "and_then m f =
     (case m of
        None \<Rightarrow> None
      | Some (Inl e, w) \<Rightarrow> Some (Inl e, w)
      | Some (Inr a, w) \<Rightarrow> f a w)"

text \<open>
  The detector object \<^verbatim>\<open>self\<close>, as \<^verbatim>\<open>hasattr\<close>, \<^verbatim>\<open>getattr\<close> and \<^verbatim>\<open>callable\<close> see it:
  the attribute of a name is absent, a callable, or some other value.
\<close>

datatype 'x attr = Method "'x strategy" | Data

type_synonym 'x detector = "string \<Rightarrow> 'x attr option"

definition get_requirements :: "string \<Rightarrow> exc + string list" where
  "get_requirements feature =
     (case map_of features feature of
        Some requirements \<Rightarrow> Inr requirements
      | None \<Rightarrow>
          Inl (UnknownFeatureException
                 (''Feature '' @ [CHR 0x22] @ feature @ [CHR 0x22] @ '' is not known.'')))"

text \<open>\<^verbatim>\<open>_get_requirement_method\<close>\<close>

definition get_requirement_method :: "'x detector \<Rightarrow> string \<Rightarrow> 'x strategy option" where
  "get_requirement_method self requirement =
     (let methodname = ''has_'' @ requirement
      in case self methodname of
           Some (Method m) \<Rightarrow> Some m
         | _ \<Rightarrow> None)"

definition has_requirement ::
  "'x detector \<Rightarrow> os \<Rightarrow> string \<Rightarrow> 'x state \<Rightarrow> ((exc + bool) \<times> 'x state) option" where
  "has_requirement self h requirement s =
     (let (cache, s1) = getSharedInstance s;
          (hit, w1) = FeatureCache_has h cache requirement (world s1)
      in if hit then Some (FeatureCache_get cache requirement, s1\<lparr>world := w1\<rparr>)
         else
           (case (case get_requirement_method self requirement of
                    Some method \<Rightarrow> method h w1
                  | None \<Rightarrow>
                      Some (Inr False,
                        logger ERROR
                          (''detection of requirement '' @ requirement
                             @ '' not implement. please fix in code!'') w1)) of
              None \<Rightarrow> None
            | Some (Inl e, w2) \<Rightarrow> Some (Inl e, s1\<lparr>world := w2\<rparr>)
            | Some (Inr result, w2) \<Rightarrow>
                (let (cache', w3) = FeatureCache_set h cache requirement result w2
                 in Some (Inr result, \<lparr>sharedInstance = Some cache', world = w3\<rparr>))))"

text \<open>
  The loop of \<^verbatim>\<open>has_requirements\<close>, with the variable \<^verbatim>\<open>passed\<close> as an argument.
  \<^verbatim>\<open>passed and self.has_requirement(requirement)\<close> evaluates its right operand only when
  \<^verbatim>\<open>passed\<close> is true, and is then the value of that operand.
\<close>

fun has_requirements_loop ::
  "'x detector \<Rightarrow> os \<Rightarrow> bool \<Rightarrow> string list \<Rightarrow> 'x state \<Rightarrow> ((exc + bool) \<times> 'x state) option" where
  "has_requirements_loop self h passed [] s = Some (Inr passed, s)"
| "has_requirements_loop self h passed (requirement # requirements) s =
     (if passed then
        (case has_requirement self h requirement s of
           None \<Rightarrow> None
         | Some (Inl e, s') \<Rightarrow> Some (Inl e, s')
         | Some (Inr result, s') \<Rightarrow> has_requirements_loop self h result requirements s')
      else has_requirements_loop self h False requirements s)"

definition has_requirements ::
  "'x detector \<Rightarrow> os \<Rightarrow> string list \<Rightarrow> 'x state \<Rightarrow> ((exc + bool) \<times> 'x state) option" where
  "has_requirements self h requirements s = has_requirements_loop self h True requirements s"

definition is_available ::
  "'x detector \<Rightarrow> os \<Rightarrow> string \<Rightarrow> 'x state \<Rightarrow> ((exc + bool) \<times> 'x state) option" where
  "is_available self h feature s =
     (case get_requirements feature of
        Inl e \<Rightarrow> Some (Inl e, s)
      | Inr requirements \<Rightarrow> has_requirements self h requirements s)"

subsection \<open>Probes\<close>

text \<open>
  \<^verbatim>\<open>subprocess.Popen(...)\<close>: the call is recorded, and the host answers with an error or
  with a process, which the position of the call identifies.
\<close>

definition Popen :: "os \<Rightarrow> popen_args \<Rightarrow> 'x world \<Rightarrow> (exc + nat \<times> process) \<times> 'x world" where
  "Popen h a w =
     (let pid = length (popen_calls w)
      in (case popen h pid a of Inl e \<Rightarrow> Inl e | Inr p \<Rightarrow> Inr (pid, p),
          w\<lparr>popen_calls := popen_calls w @ [a]\<rparr>))"

text \<open>The environment of the child process that a call of \<^verbatim>\<open>Popen\<close> creates.\<close>

definition child_env :: "os \<Rightarrow> popen_args \<Rightarrow> (string \<rightharpoonup> string)" where
  "child_env h a = (case env a of None \<Rightarrow> environ h | Some e \<Rightarrow> e)"

text \<open>\<^verbatim>\<open>try: ... except E: return v\<close> around a computation that returns or raises.\<close>

definition except_return :: "exc \<Rightarrow> bool \<Rightarrow> exc + bool \<Rightarrow> exc + bool" where
  "except_return E v r = (case r of Inl e \<Rightarrow> if e = E then Inr v else Inl e | Inr b \<Rightarrow> Inr b)"

text \<open>
  The \<^verbatim>\<open>while True\<close> loop of \<^verbatim>\<open>command_is_runnable\<close>; \<open>k\<close> counts the kill signals sent
  so far. The loop need not terminate.
\<close>

partial_function (option) wait_loop ::
  "process \<Rightarrow> nat \<Rightarrow> string \<Rightarrow> nat \<Rightarrow> 'x world \<Rightarrow> (int \<times> 'x world) option" where
  "wait_loop process pid command k w =
     (case wait_result process k 10 of
        Some rc \<Rightarrow> Some (rc, w)
      | None \<Rightarrow>
          wait_loop process pid command (Suc k)
            ((logger WARNING
                (''feature check command '' @ [CHR 0x22] @ command @ [CHR 0x22]
                   @ '' did not return after 10 seconds!'') w)
             \<lparr>kills := kills w @ [pid]\<rparr>))"

definition command_is_runnable ::
  "os \<Rightarrow> string \<Rightarrow> int option \<Rightarrow> 'x world \<Rightarrow> (bool, 'x) outcome" where
  "command_is_runnable h command expected_result w =
     (let tmp_dir = temporary_directory h
      in case shlex_split h command of
           Inl e \<Rightarrow> Some (Inl e, w)
         | Inr cmd \<Rightarrow>
             (let env = (environ h)(''DISPLAY'' := None);
                  (r, w1) = Popen h
                    \<lparr>args = cmd, stdin = DEVNULL, stdout = DEVNULL, stderr = DEVNULL,
                     cwd = Some tmp_dir, env = Some env\<rparr> w
              in case r of
                   Inl e \<Rightarrow> Some (except_return FileNotFoundError False (Inl e), w1)
                 | Inr (pid, process) \<Rightarrow>
                     (case wait_loop process pid command 0 w1 of
                        None \<Rightarrow> None
                      | Some (rc, w2) \<Rightarrow>
                          Some (Inr (case expected_result of
                                       None \<Rightarrow> rc \<noteq> 32512
                                     | Some expected \<Rightarrow> rc = expected), w2))))"

text \<open>
  \<^verbatim>\<open>process.stdout.readline()\<close> on a fresh stream: the first line, or the empty string at
  end of file.
\<close>

definition readline :: "process \<Rightarrow> string" where
  "readline process = (case stdout_lines process of [] \<Rightarrow> [] | line # _ \<Rightarrow> line)"

text \<open>
  \<^verbatim>\<open>re.compile("^<prefix>(.*)$").match(line)\<close> for a literal prefix, and the group of a
  match: \<^verbatim>\<open>.\<close> matches every character but the newline, and \<^verbatim>\<open>$\<close> matches at the end
  of the string and before a newline that ends the string.
\<close>

definition re_match_version :: "string \<Rightarrow> string \<Rightarrow> string option" where
  "re_match_version prefix line =
     (if take (length prefix) line = prefix then
        (let rest = drop (length prefix) line;
             group = takeWhile (\<lambda>c. c \<noteq> CHR 0x0A) rest
         in if rest = group \<or> rest = group @ [CHR 0x0A] then Some group else None)
      else None)"

text \<open>\<^verbatim>\<open>_check_connector\<close>; \<open>required_version\<close> is the string of the \<^verbatim>\<open>LooseVersion\<close>.\<close>

definition check_connector ::
  "os \<Rightarrow> string \<Rightarrow> string \<Rightarrow> 'x world \<Rightarrow> (exc + bool) \<times> 'x world" where
  "check_connector h command required_version w =
     (let (r, w1) = Popen h
            \<lparr>args = [command, ''--version''], stdin = Inherit, stdout = PIPE,
             stderr = Inherit, cwd = None, env = None\<rparr> w
      in (except_return FileNotFoundError False
           (case r of
              Inl e \<Rightarrow> Inl e
            | Inr (pid, process) \<Rightarrow>
                (case decode h (readline process) of
                   Inl e \<Rightarrow> Inl e
                 | Inr line \<Rightarrow>
                     (case re_match_version (command @ '' version '') line of
                        None \<Rightarrow> Inr False
                      | Some version \<Rightarrow>
                          (case wait_result process 0 1 of
                             None \<Rightarrow> Inl TimeoutExpired
                           | Some rc \<Rightarrow> loose_ge h version required_version)))), w1))"

text \<open>\<^verbatim>\<open>_check_owrx_connector\<close>\<close>

definition check_owrx_connector ::
  "os \<Rightarrow> string \<Rightarrow> 'x world \<Rightarrow> (exc + bool) \<times> 'x world" where
  "check_owrx_connector h command w = check_connector h command ''0.7'' w"

text \<open>
  \<^verbatim>\<open>str.strip()\<close>: the characters below 256 for which \<^verbatim>\<open>str.isspace()\<close> holds.
\<close>

definition isspace :: "char \<Rightarrow> bool" where
  "isspace c = ((of_char c :: nat) \<in> set [9, 10, 11, 12, 13, 28, 29, 30, 31, 32, 133, 160])"

definition strip :: "string \<Rightarrow> string" where
  "strip s = rev (dropWhile isspace (rev (dropWhile isspace s)))"

text \<open>\<^verbatim>\<open>[line.decode().strip() for line in process.stdout]\<close>\<close>

fun decode_lines :: "os \<Rightarrow> string list \<Rightarrow> exc + string list" where
  "decode_lines h [] = Inr []"
| "decode_lines h (line # rest) =
     (case decode h line of
        Inl e \<Rightarrow> Inl e
      | Inr text \<Rightarrow>
          (case decode_lines h rest of
             Inl e \<Rightarrow> Inl e
           | Inr drivers \<Rightarrow> Inr (strip text # drivers)))"

text \<open>\<^verbatim>\<open>_has_soapy_driver\<close>\<close>

definition has_soapy_driver ::
  "os \<Rightarrow> string \<Rightarrow> 'x world \<Rightarrow> (exc + bool) \<times> 'x world" where
  "has_soapy_driver h driver w =
     (let (r, w1) = Popen h
            \<lparr>args = [''soapy_connector'', ''--listdrivers''], stdin = Inherit, stdout = PIPE,
             stderr = DEVNULL, cwd = None, env = None\<rparr> w
      in (except_return FileNotFoundError False
           (case r of
              Inl e \<Rightarrow> Inl e
            | Inr (pid, process) \<Rightarrow>
                (case decode_lines h (stdout_lines process) of
                   Inl e \<Rightarrow> Inl e
                 | Inr drivers \<Rightarrow>
                     (case wait_result process 0 1 of
                        None \<Rightarrow> Inl TimeoutExpired
                      | Some rc \<Rightarrow> Inr (driver \<in> set drivers)))), w1))"

subsection \<open>The detection methods of \<^verbatim>\<open>FeatureDetector\<close>\<close>

definition has_csdr :: "'x strategy" where
  "has_csdr h w =
     (let required_version = ''0.19.0''
      in Some (except_return ImportError False
           (case import_pycsdr h of
              Inl e \<Rightarrow> Inl e
            | Inr (csdr_version, pycsdr_version) \<Rightarrow>
                (case loose_ge h csdr_version required_version of
                   Inl e \<Rightarrow> Inl e
                 | Inr False \<Rightarrow> Inr False
                 | Inr True \<Rightarrow> loose_ge h pycsdr_version required_version)), w))"

definition has_nmux :: "'x strategy" where
  "has_nmux h w = command_is_runnable h ''nmux --help'' None w"

definition has_perseustest :: "'x strategy" where
  "has_perseustest h w = command_is_runnable h ''perseustest -h'' None w"

definition has_digiham :: "'x strategy" where
  "has_digiham h w =
     (let required_version = ''0.6''
      in Some (except_return ImportError False
           (case import_digiham h of
              Inl e \<Rightarrow> Inl e
            | Inr (digiham_version, pydigiham_version) \<Rightarrow>
                (case loose_ge h digiham_version required_version of
                   Inl e \<Rightarrow> Inl e
                 | Inr False \<Rightarrow> Inr False
                 | Inr True \<Rightarrow> loose_ge h pydigiham_version required_version)), w))"

definition has_rtl_connector :: "'x strategy" where
  "has_rtl_connector h w = Some (check_owrx_connector h ''rtl_connector'' w)"

definition has_rtl_tcp_connector :: "'x strategy" where
  "has_rtl_tcp_connector h w = Some (check_owrx_connector h ''rtl_tcp_connector'' w)"

definition has_soapy_connector :: "'x strategy" where
  "has_soapy_connector h w = Some (check_owrx_connector h ''soapy_connector'' w)"

definition has_soapy_rtl_sdr :: "'x strategy" where
  "has_soapy_rtl_sdr h w = Some (has_soapy_driver h ''rtlsdr'' w)"

definition has_soapy_sdrplay :: "'x strategy" where
  "has_soapy_sdrplay h w = Some (has_soapy_driver h ''sdrplay'' w)"

definition has_soapy_airspy :: "'x strategy" where
  "has_soapy_airspy h w = Some (has_soapy_driver h ''airspy'' w)"

definition has_soapy_airspyhf :: "'x strategy" where
  "has_soapy_airspyhf h w = Some (has_soapy_driver h ''airspyhf'' w)"

definition has_soapy_afedri :: "'x strategy" where
  "has_soapy_afedri h w = Some (has_soapy_driver h ''afedri'' w)"

definition has_soapy_lime_sdr :: "'x strategy" where
  "has_soapy_lime_sdr h w = Some (has_soapy_driver h ''lime'' w)"

definition has_soapy_pluto_sdr :: "'x strategy" where
  "has_soapy_pluto_sdr h w = Some (has_soapy_driver h ''plutosdr'' w)"

definition has_soapy_remote :: "'x strategy" where
  "has_soapy_remote h w = Some (has_soapy_driver h ''remote'' w)"

definition has_soapy_uhd :: "'x strategy" where
  "has_soapy_uhd h w = Some (has_soapy_driver h ''uhd'' w)"

definition has_soapy_radioberry :: "'x strategy" where
  "has_soapy_radioberry h w = Some (has_soapy_driver h ''radioberry'' w)"

definition has_soapy_hackrf :: "'x strategy" where
  "has_soapy_hackrf h w = Some (has_soapy_driver h ''hackrf'' w)"

definition has_soapy_fcdpp :: "'x strategy" where
  "has_soapy_fcdpp h w = Some (has_soapy_driver h ''fcdpp'' w)"

definition has_soapy_bladerf :: "'x strategy" where
  "has_soapy_bladerf h w = Some (has_soapy_driver h ''bladerf'' w)"

definition has_m17_demod :: "'x strategy" where
  "has_m17_demod h w = command_is_runnable h ''m17-demod'' (Some 0) w"

definition has_direwolf :: "'x strategy" where
  "has_direwolf h w = command_is_runnable h ''direwolf --help'' None w"

text \<open>
  \<^verbatim>\<open>reduce(and_, map(self.command_is_runnable, ["jt9", "wsprd"]), True)\<close>: both commands
  run, whatever the first returns.
\<close>

definition has_wsjtx :: "'x strategy" where
  "has_wsjtx h w =
     and_then (command_is_runnable h ''jt9'' None w) (\<lambda>jt9 w1.
     and_then (command_is_runnable h ''wsprd'' None w1) (\<lambda>wsprd w2.
       Some (Inr ((True \<and> jt9) \<and> wsprd), w2)))"

text \<open>\<^verbatim>\<open>_has_wsjtx_version\<close>\<close>

definition has_wsjtx_version :: "os \<Rightarrow> string \<Rightarrow> 'x world \<Rightarrow> (exc + bool) \<times> 'x world" where
  "has_wsjtx_version h required_version w =
     (let (r, w1) = Popen h
            \<lparr>args = [''wsjtx_app_version'', ''--version''], stdin = Inherit, stdout = PIPE,
             stderr = Inherit, cwd = None, env = None\<rparr> w
      in (except_return FileNotFoundError False
           (case r of
              Inl e \<Rightarrow> Inl e
            | Inr (pid, process) \<Rightarrow>
                (case decode h (readline process) of
                   Inl e \<Rightarrow> Inl e
                 | Inr line \<Rightarrow>
                     (case re_match_version ''WSJT-X '' line of
                        None \<Rightarrow> Inr False
                      | Some version \<Rightarrow>
                          (case wait_result process 0 1 of
                             None \<Rightarrow> Inl TimeoutExpired
                           | Some rc \<Rightarrow> loose_ge h version required_version)))), w1))"

definition has_wsjtx_2_3 :: "'x strategy" where
  "has_wsjtx_2_3 h w =
     and_then (has_wsjtx h w) (\<lambda>wsjtx w1.
       if wsjtx then Some (has_wsjtx_version h ''2.3'' w1) else Some (Inr False, w1))"

definition has_wsjtx_2_4 :: "'x strategy" where
  "has_wsjtx_2_4 h w =
     and_then (has_wsjtx h w) (\<lambda>wsjtx w1.
       if wsjtx then Some (has_wsjtx_version h ''2.4'' w1) else Some (Inr False, w1))"

definition has_msk144decoder :: "'x strategy" where
  "has_msk144decoder h w = command_is_runnable h ''msk144decoder'' None w"

definition has_js8 :: "'x strategy" where
  "has_js8 h w = command_is_runnable h ''js8'' None w"

definition has_js8py :: "'x strategy" where
  "has_js8py h w =
     (let required_version = ''0.2''
      in Some (except_return ImportError False
           (case import_js8py h of
              Inl e \<Rightarrow> Inl e
            | Inr strictversion \<Rightarrow> strict_ge h strictversion required_version), w))"

definition has_alsa :: "'x strategy" where
  "has_alsa h w = command_is_runnable h ''arecord --help'' None w"

definition has_rockprog :: "'x strategy" where
  "has_rockprog h w = command_is_runnable h ''rockprog'' None w"

definition has_freedv_rx :: "'x strategy" where
  "has_freedv_rx h w = command_is_runnable h ''freedv_rx'' None w"

definition has_dream :: "'x strategy" where
  "has_dream h w = command_is_runnable h ''dream --help'' (Some 0) w"

definition has_sddc_connector :: "'x strategy" where
  "has_sddc_connector h w = Some (check_connector h ''sddc_connector'' ''0.1'' w)"

definition has_soapy_sddc :: "'x strategy" where
  "has_soapy_sddc h w = Some (has_soapy_driver h ''SDDC'' w)"

definition has_hpsdr_connector :: "'x strategy" where
  "has_hpsdr_connector h w = command_is_runnable h ''hpsdrconnector -h'' None w"

definition has_runds_connector :: "'x strategy" where
  "has_runds_connector h w = Some (check_connector h ''runds_connector'' ''0.2'' w)"

text \<open>
  \<open>MbeSynthesizer_hasAmbe\<close> stands for the import of \<^verbatim>\<open>MbeSynthesizer\<close> followed by the
  call of \<^verbatim>\<open>hasAmbe\<close>.
\<close>

definition has_codecserver_ambe :: "'x strategy" where
  "has_codecserver_ambe h w =
     (let server = (case config_digital_voice_codecserver h of None \<Rightarrow> [] | Some v \<Rightarrow> v)
      in case MbeSynthesizer_hasAmbe h server of
           Inl e \<Rightarrow>
             (if e = ImportError then Some (Inr False, w)
              else if e = ConnectionError then Some (Inr False, w)
              else if e = RuntimeError then
                Some (Inr False,
                  logger ERROR ''Codecserver error while checking for AMBE support:'' w)
              else Some (Inl e, w))
         | Inr r \<Rightarrow> Some (Inr r, w))"

definition has_dump1090 :: "'x strategy" where
  "has_dump1090 h w = command_is_runnable h ''dump1090 --version'' None w"

definition has_rtl_433 :: "'x strategy" where
  "has_rtl_433 h w = command_is_runnable h ''rtl_433 -h'' None w"

definition has_dumphfdl :: "'x strategy" where
  "has_dumphfdl h w = command_is_runnable h ''dumphfdl --version'' None w"

definition has_dumpvdl2 :: "'x strategy" where
  "has_dumpvdl2 h w = command_is_runnable h ''dumpvdl2 --version'' None w"

definition has_redsea :: "'x strategy" where
  "has_redsea h w = command_is_runnable h ''redsea --version'' None w"

definition has_csdreti :: "'x strategy" where
  "has_csdreti h w =
     (let required_version = ''0.1''
      in Some (except_return ImportError False
           (case import_csdreti h of
              Inl e \<Rightarrow> Inl e
            | Inr (csdreti_version, pycsdreti_version) \<Rightarrow>
                (case loose_ge h csdreti_version required_version of
                   Inl e \<Rightarrow> Inl e
                 | Inr False \<Rightarrow> Inr False
                 | Inr True \<Rightarrow> loose_ge h pycsdreti_version required_version)), w))"

definition has_dablin :: "'x strategy" where
  "has_dablin h w = command_is_runnable h ''dablin -h'' None w"

definition has_paho_mqtt :: "'x strategy" where
  "has_paho_mqtt h w =
     Some (except_return ImportError False
       (case import_paho_mqtt h of
          Inl e \<Rightarrow> Inl e
        | Inr version \<Rightarrow> Inr True), w)"

text \<open>
  The attributes of a \<^verbatim>\<open>FeatureDetector\<close> object whose names start with \<^verbatim>\<open>has_\<close>, the
  only names \<^verbatim>\<open>_get_requirement_method\<close> asks for. \<^verbatim>\<open>has_requirement\<close> and
  \<^verbatim>\<open>has_requirements\<close> are callable attributes too; each takes one argument, so the call
  without arguments that \<^verbatim>\<open>has_requirement\<close> makes raises \<^verbatim>\<open>TypeError\<close>.
\<close>

definition FeatureDetector :: "'x detector" where
  "FeatureDetector =
     map_of
     [(''has_requirements'', Method (\<lambda>h w. Some (Inl TypeError, w))),
      (''has_requirement'', Method (\<lambda>h w. Some (Inl TypeError, w))),
      (''has_csdr'', Method has_csdr),
      (''has_nmux'', Method has_nmux),
      (''has_perseustest'', Method has_perseustest),
      (''has_digiham'', Method has_digiham),
      (''has_rtl_connector'', Method has_rtl_connector),
      (''has_rtl_tcp_connector'', Method has_rtl_tcp_connector),
      (''has_soapy_connector'', Method has_soapy_connector),
      (''has_soapy_rtl_sdr'', Method has_soapy_rtl_sdr),
      (''has_soapy_sdrplay'', Method has_soapy_sdrplay),
      (''has_soapy_airspy'', Method has_soapy_airspy),
      (''has_soapy_airspyhf'', Method has_soapy_airspyhf),
      (''has_soapy_afedri'', Method has_soapy_afedri),
      (''has_soapy_lime_sdr'', Method has_soapy_lime_sdr),
      (''has_soapy_pluto_sdr'', Method has_soapy_pluto_sdr),
      (''has_soapy_remote'', Method has_soapy_remote),
      (''has_soapy_uhd'', Method has_soapy_uhd),
      (''has_soapy_radioberry'', Method has_soapy_radioberry),
      (''has_soapy_hackrf'', Method has_soapy_hackrf),
      (''has_soapy_fcdpp'', Method has_soapy_fcdpp),
      (''has_soapy_bladerf'', Method has_soapy_bladerf),
      (''has_m17_demod'', Method has_m17_demod),
      (''has_direwolf'', Method has_direwolf),
      (''has_wsjtx'', Method has_wsjtx),
      (''has_wsjtx_2_3'', Method has_wsjtx_2_3),
      (''has_wsjtx_2_4'', Method has_wsjtx_2_4),
      (''has_msk144decoder'', Method has_msk144decoder),
      (''has_js8'', Method has_js8),
      (''has_js8py'', Method has_js8py),
      (''has_alsa'', Method has_alsa),
      (''has_rockprog'', Method has_rockprog),
      (''has_freedv_rx'', Method has_freedv_rx),
      (''has_dream'', Method has_dream),
      (''has_sddc_connector'', Method has_sddc_connector),
      (''has_soapy_sddc'', Method has_soapy_sddc),
      (''has_hpsdr_connector'', Method has_hpsdr_connector),
      (''has_runds_connector'', Method has_runds_connector),
      (''has_codecserver_ambe'', Method has_codecserver_ambe),
      (''has_dump1090'', Method has_dump1090),
      (''has_rtl_433'', Method has_rtl_433),
      (''has_dumphfdl'', Method has_dumphfdl),
      (''has_dumpvdl2'', Method has_dumpvdl2),
      (''has_redsea'', Method has_redsea),
      (''has_csdreti'', Method has_csdreti),
      (''has_dablin'', Method has_dablin),
      (''has_paho_mqtt'', Method has_paho_mqtt)]"

section \<open>Specification-side definitions and test doubles\<close>

definition spec_has :: "datetime \<Rightarrow> FeatureCache \<Rightarrow> string \<Rightarrow> bool" where
  "spec_has now c name = (case cache c name of None \<Rightarrow> False | Some e \<Rightarrow> now < valid_to e)"

fun split_words :: "string \<Rightarrow> string \<Rightarrow> string list" where
  "split_words acc [] = (if acc = [] then [] else [acc])"
| "split_words acc (c # cs) =
     (if c = CHR '' '' then (if acc = [] then split_words [] cs else acc # split_words [] cs)
      else split_words (acc @ [c]) cs)"

definition test_os :: "(nat \<Rightarrow> datetime) \<Rightarrow> (nat \<Rightarrow> popen_args \<Rightarrow> exc + process) \<Rightarrow> os" where
  "test_os clock spawn =
     \<lparr>wall_clock = clock,
      environ = [''DISPLAY'' \<mapsto> '':0'', ''PATH'' \<mapsto> ''/usr/bin''],
      temporary_directory = ''/tmp'',
      popen = spawn,
      shlex_split = (\<lambda>command. Inr (split_words [] command)),
      decode = Inr,
      loose_ge = (\<lambda>v required. Inr True),
      strict_ge = (\<lambda>v required. Inr True),
      import_pycsdr = Inl ImportError,
      import_digiham = Inl ImportError,
      import_csdreti = Inl ImportError,
      import_js8py = Inl ImportError,
      import_paho_mqtt = Inl ImportError,
      config_digital_voice_codecserver = None,
      MbeSynthesizer_hasAmbe = (\<lambda>server. Inl ImportError)\<rparr>"

definition world0 :: "'x \<Rightarrow> 'x world" where
  "world0 u = \<lparr>ticks = 0, log = [], popen_calls = [], kills = [], user = u\<rparr>"

definition ticking_os :: os where
  "ticking_os = test_os (\<lambda>k. 1000 + int k) (\<lambda>n a. Inl FileNotFoundError)"

definition cache_hit :: "os \<Rightarrow> string \<Rightarrow> 'x state \<Rightarrow> bool" where
  "cache_hit h requirement s =
     fst (FeatureCache_has h (fst (getSharedInstance s)) requirement (world s))"

definition cached :: "'x state \<Rightarrow> string \<rightharpoonup> cache_entry" where
  "cached s = (case sharedInstance s of None \<Rightarrow> Map.empty | Some c \<Rightarrow> cache c)"

definition warning_record :: "string \<Rightarrow> log_record" where
  "warning_record command =
     (WARNING, ''feature check command '' @ [CHR 0x22] @ command @ [CHR 0x22]
                 @ '' did not return after 10 seconds!'')"

definition command_popen_args :: "os \<Rightarrow> string list \<Rightarrow> popen_args" where
  "command_popen_args h cmd =
     \<lparr>args = cmd, stdin = DEVNULL, stdout = DEVNULL, stderr = DEVNULL,
      cwd = Some (temporary_directory h), env = Some ((environ h)(''DISPLAY'' := None))\<rparr>"

definition spec_sanitized :: "os \<Rightarrow> popen_args \<Rightarrow> bool" where
  "spec_sanitized h a =
     (child_env h a ''DISPLAY'' = None
      \<and> stdin a \<noteq> Inherit \<and> stdout a \<noteq> Inherit \<and> stderr a \<noteq> Inherit)"

definition stubborn_process :: "nat \<Rightarrow> int \<Rightarrow> process" where
  "stubborn_process secs rc =
     \<lparr>stdout_lines = [],
      wait_result = (\<lambda>k t. if secs \<le> (k + 1) * t then Some rc else None)\<rparr>"

definition exit_os :: "int \<Rightarrow> os" where
  "exit_os rc =
     test_os (\<lambda>k. int k)
       (\<lambda>n a. if hd (args a) = ''nmux''
              then Inr \<lparr>stdout_lines = [], wait_result = (\<lambda>k t. Some rc)\<rparr>
              else Inl FileNotFoundError)"

definition stubborn_os :: os where
  "stubborn_os = test_os (\<lambda>k. int k) (\<lambda>n a. Inr (stubborn_process 25 (- 9)))"

definition display_os :: os where
  "display_os =
     test_os (\<lambda>k. int k)
       (\<lambda>n a. Inr \<lparr>stdout_lines = [''rtl_connector version 0.7'' @ [CHR 0x0A]],
                    wait_result = (\<lambda>k t. Some 0)\<rparr>)"

inductive reachable :: "'x detector \<Rightarrow> os \<Rightarrow> 'x state \<Rightarrow> bool"
  for self :: "'x detector" and h :: os where
  start: "sharedInstance s = None \<Longrightarrow> reachable self h s"
| call: "reachable self h s \<Longrightarrow> has_requirement self h requirement s = Some (r, s')
         \<Longrightarrow> reachable self h s'"
| pass: "reachable self h s \<Longrightarrow> reachable self h (s\<lparr>world := w\<rparr>)"

definition error_record :: "string \<Rightarrow> log_record" where
  "error_record requirement =
     (ERROR, ''detection of requirement '' @ requirement
               @ '' not implement. please fix in code!'')"

definition state0 :: "'x \<Rightarrow> 'x state" where
  "state0 u = \<lparr>sharedInstance = None, world = world0 u\<rparr>"

definition alternating :: "bool strategy" where
  "alternating h w = Some (Inr (user w), w\<lparr>user := \<not> user w\<rparr>)"

definition stub_detector :: "bool detector" where
  "stub_detector name = (if name = ''has_stub'' then Some (Method alternating) else None)"

definition expiry_os :: os where
  "expiry_os =
     test_os (\<lambda>k. if k = 0 then 0 else if k = 1 then timedelta_hours 2 else timedelta_hours 2 + 1)
       (\<lambda>n a. Inl FileNotFoundError)"

fun requirement_results ::
  "'x detector \<Rightarrow> os \<Rightarrow> string list \<Rightarrow> 'x state \<Rightarrow> (exc + bool) option list" where
  "requirement_results self h [] s = []"
| "requirement_results self h (r # rs) s =
     (case has_requirement self h r s of
        None \<Rightarrow> [None]
      | Some (Inl e, s') \<Rightarrow> [Some (Inl e)]
      | Some (Inr b, s') \<Rightarrow> Some (Inr b) # requirement_results self h rs s')"

definition returning :: "bool \<Rightarrow> 'x strategy" where
  "returning b h w = Some (Inr b, w)"

definition two_stubs :: "bool \<Rightarrow> bool \<Rightarrow> unit detector" where
  "two_stubs a b name =
     (if name = ''has_perseustest'' then Some (Method (returning a))
      else if name = ''has_nmux'' then Some (Method (returning b))
      else None)"

fun spec_check_all :: "'x detector \<Rightarrow> os \<Rightarrow> string list \<Rightarrow> 'x state \<Rightarrow> 'x state option" where
  "spec_check_all self h [] s = Some s"
| "spec_check_all self h (r # rs) s =
     (case has_requirement self h r s of
        None \<Rightarrow> None
      | Some (Inl e, s') \<Rightarrow> Some s'
      | Some (Inr b, s') \<Rightarrow> spec_check_all self h rs s')"

definition spec_checks_every_requirement ::
  "'x detector \<Rightarrow> os \<Rightarrow> string \<Rightarrow> 'x state \<Rightarrow> bool" where
  "spec_checks_every_requirement self h feature s =
     (case map_of features feature of
        None \<Rightarrow> True
      | Some requirements \<Rightarrow>
          map_option snd (is_available self h feature s) = spec_check_all self h requirements s)"

definition spawned_commands :: "'x state \<Rightarrow> string list list" where
  "spawned_commands s = map args (popen_calls (world s))"

fun spec_check_until_false ::
  "'x detector \<Rightarrow> os \<Rightarrow> string list \<Rightarrow> 'x state \<Rightarrow> ((exc + bool) \<times> 'x state) option" where
  "spec_check_until_false self h [] s = Some (Inr True, s)"
| "spec_check_until_false self h (r # rs) s =
     (case has_requirement self h r s of
        None \<Rightarrow> None
      | Some (Inl e, s') \<Rightarrow> Some (Inl e, s')
      | Some (Inr b, s') \<Rightarrow>
          if b then spec_check_until_false self h rs s' else Some (Inr False, s'))"

definition slow_process :: process where
  "slow_process =
     \<lparr>stdout_lines = [''rtl_connector version 0.7'' @ [CHR 0x0A]],
      wait_result = (\<lambda>k seconds. if 5 \<le> seconds then Some 0 else None)\<rparr>"

definition slow_os :: os where
  "slow_os = test_os (\<lambda>k. 1000 + int k) (\<lambda>n a. Inr slow_process)"

section \<open>Properties\<close>

lemma FeatureCache_has_iff:
  "fst (FeatureCache_has h c name w) =
     (case cache c name of None \<Rightarrow> False | Some e \<Rightarrow> wall_clock h (ticks w) \<le> valid_to e)"
  by (simp add: FeatureCache_has_def datetime_now_def split: option.split)

text \<open>
  Claim C7 says that \<open>has\<close> is true if and only if the entry exists and its expiry instant
  is strictly after the current time (\<open>spec_has\<close>). At the instant of the expiry the code
  answers true.
\<close>

theorem has_boundary_counterexample:
  "fst (FeatureCache_has (test_os (\<lambda>k. 100) (\<lambda>n a. Inl FileNotFoundError))
          \<lparr>cache = [''csdr'' \<mapsto> \<lparr>val = True, valid_to = 100\<rparr>], cachetime = timedelta_hours 2\<rparr>
          ''csdr'' (world0 ()))
   \<noteq> spec_has 100
          \<lparr>cache = [''csdr'' \<mapsto> \<lparr>val = True, valid_to = 100\<rparr>], cachetime = timedelta_hours 2\<rparr>
          ''csdr''"
  by (simp add: FeatureCache_has_def datetime_now_def spec_has_def test_os_def world0_def)

text \<open>
  Claim C10. After \<open>set(name, value)\<close>, at every clock reading that is not after the stored
  expiry instant, \<open>get(name)\<close> returns \<open>value\<close> and \<open>has(name)\<close> returns true.
\<close>

theorem cache_roundtrip:
  assumes "wall_clock h (ticks w') \<le> wall_clock h (ticks w) + cachetime c"
  shows "FeatureCache_get (fst (FeatureCache_set h c name v w)) name = Inr v
       \<and> fst (FeatureCache_has h (fst (FeatureCache_set h c name v w)) name w')"
  using assms
  by (simp add: FeatureCache_get_def FeatureCache_set_def FeatureCache_has_def datetime_now_def)

theorem cache_roundtrip_witness:
  "FeatureCache_get (fst (FeatureCache_set ticking_os FeatureCache_init ''csdr'' True (world0 ())))
     ''csdr'' = Inr True
   \<and> fst (FeatureCache_has ticking_os
       (fst (FeatureCache_set ticking_os FeatureCache_init ''csdr'' True (world0 ()))) ''csdr''
       (snd (FeatureCache_set ticking_os FeatureCache_init ''csdr'' True (world0 ()))))"
  using cache_roundtrip [where h = ticking_os and w = "world0 ()" and c = FeatureCache_init
      and name = "''csdr''" and v = True
      and w' = "snd (FeatureCache_set ticking_os FeatureCache_init ''csdr'' True (world0 ()))"]
  by (simp add: ticking_os_def test_os_def world0_def FeatureCache_init_def timedelta_hours_def
      FeatureCache_set_def datetime_now_def)

lemma cache_hit_iff:
  "cache_hit h r s = (case cached s r of None \<Rightarrow> False | Some e \<Rightarrow> wall_clock h (ticks (world s)) \<le> valid_to e)"
  by (simp add: cache_hit_def cached_def FeatureCache_has_iff getSharedInstance_def FeatureCache_init_def
      split: option.split)

lemma has_requirement_hit:
  assumes "cached s r = Some e" and "wall_clock h (ticks (world s)) \<le> valid_to e"
  shows "has_requirement self h r s =
           Some (Inr (val e), s\<lparr>world := (world s)\<lparr>ticks := Suc (ticks (world s))\<rparr>\<rparr>)"
  using assms
  by (auto simp: has_requirement_def cached_def getSharedInstance_def FeatureCache_has_def
      FeatureCache_get_def datetime_now_def split: option.splits)

lemma world_getSharedInstance:
  "world (snd (getSharedInstance s)) = world s"
  by (simp add: getSharedInstance_def split: option.split)

lemma has_requirement_miss:
  assumes "\<not> cache_hit h r s"
  shows "has_requirement self h r s =
     (let (c, s1) = getSharedInstance s;
          w1 = snd (FeatureCache_has h c r (world s1))
      in case (case get_requirement_method self r of
                 Some method \<Rightarrow> method h w1
               | None \<Rightarrow>
                   Some (Inr False,
                     logger ERROR
                       (''detection of requirement '' @ r
                          @ '' not implement. please fix in code!'') w1)) of
           None \<Rightarrow> None
         | Some (Inl e, w2) \<Rightarrow> Some (Inl e, s1\<lparr>world := w2\<rparr>)
         | Some (Inr result, w2) \<Rightarrow>
             Some (Inr result,
               \<lparr>sharedInstance = Some (fst (FeatureCache_set h c r result w2)),
                world = snd (FeatureCache_set h c r result w2)\<rparr>))"
  using assms
  by (simp add: has_requirement_def cache_hit_def Let_def split_beta world_getSharedInstance
      split: option.splits sum.splits prod.splits)

lemma wait_loop_returns:
  assumes "wait_result p n 10 = Some rc"
      and "\<forall>j. k \<le> j \<and> j < n \<longrightarrow> wait_result p j 10 = None"
      and "k \<le> n"
  shows "wait_loop p pid command k w =
           Some (rc, w\<lparr>log := log w @ replicate (n - k) (warning_record command),
                      kills := kills w @ replicate (n - k) pid\<rparr>)"
  using assms
proof (induction "n - k" arbitrary: k w)
  case 0
  then have "k = n" by simp
  with "0.prems" show ?case
    by (subst wait_loop.simps) simp
next
  case (Suc m)
  then have lt: "k < n" and m: "m = n - Suc k" by simp_all
  from lt Suc.prems have none: "wait_result p k 10 = None" by simp
  have step: "wait_loop p pid command (Suc k)
                ((logger WARNING
                    (''feature check command '' @ [CHR 0x22] @ command @ [CHR 0x22]
                       @ '' did not return after 10 seconds!'') w)
                 \<lparr>kills := kills w @ [pid]\<rparr>)
              = Some (rc, w\<lparr>log := log w @ replicate (n - k) (warning_record command),
                      kills := kills w @ replicate (n - k) pid\<rparr>)"
    using Suc.hyps(1) [OF m Suc.prems(1)] Suc.prems(2) lt Suc.hyps(2)
    by (simp add: logger_def warning_record_def replicate_app_Cons_same
        flip: replicate_Suc)
  show ?case
    by (subst wait_loop.simps) (simp only: none option.case step)
qed

lemma command_is_runnable_returns:
  assumes "shlex_split h command = Inr cmd"
      and "popen h (length (popen_calls w)) (command_popen_args h cmd) = Inr p"
      and "wait_result p n 10 = Some rc"
      and "\<forall>j<n. wait_result p j 10 = None"
  shows "command_is_runnable h command expected_result w =
           Some (Inr (case expected_result of None \<Rightarrow> rc \<noteq> 32512 | Some expected \<Rightarrow> rc = expected),
             w\<lparr>popen_calls := popen_calls w @ [command_popen_args h cmd],
               log := log w @ replicate n (warning_record command),
               kills := kills w @ replicate n (length (popen_calls w))\<rparr>)"
proof -
  have loop: "wait_loop p (length (popen_calls w)) command 0
                (w\<lparr>popen_calls := popen_calls w @ [command_popen_args h cmd]\<rparr>)
              = Some (rc, w\<lparr>popen_calls := popen_calls w @ [command_popen_args h cmd],
                    log := log w @ replicate n (warning_record command),
                    kills := kills w @ replicate n (length (popen_calls w))\<rparr>)"
    using wait_loop_returns [of p n rc 0 "length (popen_calls w)" command
        "w\<lparr>popen_calls := popen_calls w @ [command_popen_args h cmd]\<rparr>"] assms(3,4)
    by simp
  show ?thesis
    using assms(1,2) loop
    by (simp add: command_is_runnable_def Popen_def Let_def command_popen_args_def)
qed

lemma command_is_runnable_not_found:
  assumes "shlex_split h command = Inr cmd"
      and "popen h (length (popen_calls w)) (command_popen_args h cmd) = Inl FileNotFoundError"
  shows "command_is_runnable h command expected_result w =
           Some (Inr False, w\<lparr>popen_calls := popen_calls w @ [command_popen_args h cmd]\<rparr>)"
  using assms
  by (simp add: command_is_runnable_def Popen_def Let_def command_popen_args_def
      except_return_def)

lemma wait_loop_popen_calls:
  assumes "wait_loop p pid command k w = Some y"
  shows "popen_calls (snd y) = popen_calls w"
proof (rule wait_loop.raw_induct
    [where P = "\<lambda>p pid command k w y. popen_calls (snd y) = popen_calls w", OF _ assms],
    goal_cases)
  case (1 f p pid command k w y)
  show ?case
  proof (cases "wait_result p k 10")
    case None
    with "1"(2) have "popen_calls (snd y) =
        popen_calls ((logger WARNING
                (''feature check command '' @ [CHR 0x22] @ command @ [CHR 0x22]
                   @ '' did not return after 10 seconds!'') w)
             \<lparr>kills := kills w @ [pid]\<rparr>)"
      by (intro "1"(1)) simp
    then show ?thesis by (simp add: logger_def)
  next
    case (Some rc)
    with "1"(2) show ?thesis by auto
  qed
qed

text \<open>
  Claim C6. For a command line that \<open>shlex.split\<close> accepts: when the process is spawned and
  terminates with exit code \<open>rc\<close>, \<open>command_is_runnable\<close> returns \<open>rc \<noteq> 32512\<close> without an
  expected exit code and \<open>rc = expected\<close> with one; when \<open>Popen\<close> raises
  \<open>FileNotFoundError\<close>, it returns false.
\<close>

theorem command_is_runnable_exit_code:
  assumes "shlex_split h command = Inr cmd"
  shows "(popen h (length (popen_calls w)) (command_popen_args h cmd) = Inr p
            \<and> wait_result p n 10 = Some rc \<and> (\<forall>j<n. wait_result p j 10 = None)
          \<longrightarrow> (\<exists>w'. command_is_runnable h command None w = Some (Inr (rc \<noteq> 32512), w'))
            \<and> (\<exists>w'. command_is_runnable h command (Some expected) w
                       = Some (Inr (rc = expected), w')))
       \<and> (popen h (length (popen_calls w)) (command_popen_args h cmd) = Inl FileNotFoundError
          \<longrightarrow> (\<exists>w'. command_is_runnable h command expected_result w = Some (Inr False, w')))"
proof (intro conjI impI)
  assume a: "popen h (length (popen_calls w)) (command_popen_args h cmd) = Inr p
            \<and> wait_result p n 10 = Some rc \<and> (\<forall>j<n. wait_result p j 10 = None)"
  show "\<exists>w'. command_is_runnable h command None w = Some (Inr (rc \<noteq> 32512), w')"
    using command_is_runnable_returns [OF assms, of w p n rc None] a by simp
  show "\<exists>w'. command_is_runnable h command (Some expected) w = Some (Inr (rc = expected), w')"
    using command_is_runnable_returns [OF assms, of w p n rc "Some expected"] a by simp
next
  assume "popen h (length (popen_calls w)) (command_popen_args h cmd) = Inl FileNotFoundError"
  then show "\<exists>w'. command_is_runnable h command expected_result w = Some (Inr False, w')"
    using command_is_runnable_not_found [OF assms, of w expected_result] by simp
qed

theorem command_is_runnable_exit_code_witness:
  "(\<exists>w'. command_is_runnable (exit_os 32512) ''nmux --help'' None (world0 ())
            = Some (Inr False, w'))
   \<and> (\<exists>w'. command_is_runnable (exit_os 1) ''nmux --help'' None (world0 ())
            = Some (Inr True, w'))
   \<and> (\<exists>w'. command_is_runnable (exit_os 1) ''nmux --help'' (Some 0) (world0 ())
            = Some (Inr False, w'))
   \<and> (\<exists>w'. command_is_runnable (exit_os 0) ''dream --help'' (Some 0) (world0 ())
            = Some (Inr False, w'))"
  using command_is_runnable_exit_code [where h = "exit_os 32512" and command = "''nmux --help''"
      and cmd = "[''nmux'', ''--help'']" and w = "world0 ()" and n = 0 and rc = 32512
      and p = "\<lparr>stdout_lines = [], wait_result = (\<lambda>k t. Some 32512)\<rparr>"]
    command_is_runnable_exit_code [where h = "exit_os 1" and command = "''nmux --help''"
      and cmd = "[''nmux'', ''--help'']" and w = "world0 ()" and n = 0 and rc = 1
      and p = "\<lparr>stdout_lines = [], wait_result = (\<lambda>k t. Some 1)\<rparr>" and expected = 0]
    command_is_runnable_exit_code [where h = "exit_os 0" and command = "''dream --help''"
      and cmd = "[''dream'', ''--help'']" and w = "world0 ()" and expected_result = "Some 0"]
  by (simp add: exit_os_def test_os_def world0_def command_popen_args_def)

text \<open>
  Claim C9. When the spawned process terminates once \<open>n\<close> kill signals have been sent,
  the loop of \<open>command_is_runnable\<close> terminates and the function returns a boolean: each of
  the \<open>n\<close> expired waits of 10 seconds logged one warning that names the command and sent
  one kill signal to the process. A process that ignores the kill signals for 25 seconds
  causes two warnings and a boolean result.
\<close>

theorem kill_protocol_returns:
  assumes "shlex_split h command = Inr cmd"
      and "popen h (length (popen_calls w)) (command_popen_args h cmd) = Inr p"
      and "wait_result p n 10 = Some rc"
      and "\<forall>j<n. wait_result p j 10 = None"
  shows "\<exists>b w'. command_is_runnable h command expected_result w = Some (Inr b, w')
           \<and> log w' = log w @ replicate n (warning_record command)
           \<and> kills w' = kills w @ replicate n (length (popen_calls w))"
  using command_is_runnable_returns [OF assms, of expected_result] by simp

theorem kill_protocol_returns_witness:
  "\<exists>b w'. command_is_runnable stubborn_os ''nmux --help'' None (world0 ()) = Some (Inr b, w')
           \<and> log w' = [warning_record ''nmux --help'', warning_record ''nmux --help'']
           \<and> kills w' = [0, 0]"
  using kill_protocol_returns [where h = stubborn_os and command = "''nmux --help''"
      and cmd = "[''nmux'', ''--help'']" and w = "world0 ()" and n = 2 and rc = "- 9"
      and p = "stubborn_process 25 (- 9)" and expected_result = None]
  by (simp add: stubborn_os_def test_os_def world0_def stubborn_process_def
      numeral_2_eq_2 less_Suc_eq)

text \<open>
  Claim C8 says that every probe spawns its subprocess without \<open>DISPLAY\<close> in the
  environment and with the three standard streams redirected (\<open>spec_sanitized\<close>). The
  subprocess of \<open>_check_connector\<close> inherits the caller's environment, standard input and
  standard error.
\<close>

theorem connector_spawn_counterexample:
  "\<not> spec_sanitized display_os
       (last (popen_calls (snd (check_connector display_os ''rtl_connector'' ''0.7'' (world0 ())))))"
  by (simp add: spec_sanitized_def check_connector_def Popen_def display_os_def test_os_def
      world0_def child_env_def Let_def split_beta)

lemma command_is_runnable_popen_calls:
  assumes "command_is_runnable h command expected_result w = Some (r, w')"
  shows "popen_calls w' = popen_calls w
       \<or> (\<exists>cmd. popen_calls w' = popen_calls w @ [command_popen_args h cmd])"
proof (cases "shlex_split h command")
  case (Inl e)
  with assms show ?thesis by (simp add: command_is_runnable_def)
next
  case (Inr cmd)
  show ?thesis
  proof (cases "popen h (length (popen_calls w)) (command_popen_args h cmd)")
    case (Inl e)
    with Inr assms show ?thesis
      by (auto simp: command_is_runnable_def Popen_def Let_def command_popen_args_def)
  next
    case p: (Inr p)
    from assms Inr p obtain rc where
      "wait_loop p (length (popen_calls w)) command 0
         (w\<lparr>popen_calls := popen_calls w @ [command_popen_args h cmd]\<rparr>) = Some (rc, w')"
      by (auto simp: command_is_runnable_def Popen_def Let_def command_popen_args_def
          split: option.splits)
    from wait_loop_popen_calls [OF this] show ?thesis by auto
  qed
qed

text \<open>
  Claim C8, amended. Every subprocess that \<open>command_is_runnable\<close> spawns receives an
  environment without \<open>DISPLAY\<close> and has standard input, output and error redirected to
  the null device. The versioned-connector probe and the driver-enumeration probe spawn
  one subprocess each, with the standard output piped to the probe.
\<close>

theorem spawn_arguments:
  "(command_is_runnable h command expected_result w = Some (r, w')
      \<longrightarrow> (\<forall>a \<in> set (drop (length (popen_calls w)) (popen_calls w')).
             child_env h a ''DISPLAY'' = None
             \<and> stdin a = DEVNULL \<and> stdout a = DEVNULL \<and> stderr a = DEVNULL))
   \<and> (\<exists>a. popen_calls (snd (check_connector h connector required_version w1))
             = popen_calls w1 @ [a] \<and> stdout a = PIPE)
   \<and> (\<exists>a. popen_calls (snd (has_soapy_driver h driver w2))
             = popen_calls w2 @ [a] \<and> stdout a = PIPE)"
proof (intro conjI impI)
  assume "command_is_runnable h command expected_result w = Some (r, w')"
  from command_is_runnable_popen_calls [OF this]
  show "\<forall>a \<in> set (drop (length (popen_calls w)) (popen_calls w')).
          child_env h a ''DISPLAY'' = None
          \<and> stdin a = DEVNULL \<and> stdout a = DEVNULL \<and> stderr a = DEVNULL"
    by (auto simp: command_popen_args_def child_env_def)
next
  show "\<exists>a. popen_calls (snd (check_connector h connector required_version w1))
             = popen_calls w1 @ [a] \<and> stdout a = PIPE"
    by (simp add: check_connector_def Popen_def Let_def split_beta)
next
  show "\<exists>a. popen_calls (snd (has_soapy_driver h driver w2))
             = popen_calls w2 @ [a] \<and> stdout a = PIPE"
    by (simp add: has_soapy_driver_def Popen_def Let_def split_beta)
qed

theorem spawn_arguments_witness:
  "command_is_runnable (exit_os 0) ''nmux --help'' None (world0 ())
     = Some (Inr True,
         (world0 ())\<lparr>popen_calls := [command_popen_args (exit_os 0) [''nmux'', ''--help'']]\<rparr>)
   \<and> child_env (exit_os 0) (command_popen_args (exit_os 0) [''nmux'', ''--help'']) ''DISPLAY'' = None
   \<and> environ (exit_os 0) ''DISPLAY'' = Some '':0''
   \<and> stdin (command_popen_args (exit_os 0) [''nmux'', ''--help'']) = DEVNULL"
proof -
  have run: "command_is_runnable (exit_os 0) ''nmux --help'' None (world0 ())
     = Some (Inr True,
         (world0 ())\<lparr>popen_calls := [command_popen_args (exit_os 0) [''nmux'', ''--help'']]\<rparr>)"
    using command_is_runnable_returns [where h = "exit_os 0" and command = "''nmux --help''"
      and cmd = "[''nmux'', ''--help'']" and w = "world0 ()" and n = 0 and rc = 0
      and p = "\<lparr>stdout_lines = [], wait_result = (\<lambda>k t. Some 0)\<rparr>" and expected_result = None]
    by (simp add: exit_os_def test_os_def world0_def command_popen_args_def)
  have "\<forall>a \<in> set (drop (length (popen_calls (world0 ())))
            (popen_calls ((world0 ())
               \<lparr>popen_calls := [command_popen_args (exit_os 0) [''nmux'', ''--help'']]\<rparr>))).
          child_env (exit_os 0) a ''DISPLAY'' = None
          \<and> stdin a = DEVNULL \<and> stdout a = DEVNULL \<and> stderr a = DEVNULL"
    using spawn_arguments [where h = "exit_os 0" and command = "''nmux --help''"
      and expected_result = None and w = "world0 ()" and r = "Inr True"
      and w' = "(world0 ())\<lparr>popen_calls := [command_popen_args (exit_os 0) [''nmux'', ''--help'']]\<rparr>"]
      run
    by blast
  then have "child_env (exit_os 0) (command_popen_args (exit_os 0) [''nmux'', ''--help'']) ''DISPLAY'' = None
     \<and> stdin (command_popen_args (exit_os 0) [''nmux'', ''--help'']) = DEVNULL"
    by (simp add: world0_def)
  moreover have "environ (exit_os 0) ''DISPLAY'' = Some '':0''"
    by (simp add: exit_os_def test_os_def)
  ultimately show ?thesis using run by simp
qed

text \<open>reachable states\<close>

lemma cache_getSharedInstance:
  "cache (fst (getSharedInstance s)) = cached s"
  by (simp add: getSharedInstance_def cached_def FeatureCache_init_def split: option.split)

lemma cached_getSharedInstance:
  "cached (snd (getSharedInstance s)) = cached s"
  by (simp add: getSharedInstance_def cached_def FeatureCache_init_def split: option.split)

lemma cached_world_update:
  "cached (s\<lparr>world := w\<rparr>) = cached s"
  by (simp add: cached_def)

lemma cache_FeatureCache_set:
  "cache (fst (FeatureCache_set h c r b w))
     = (cache c)(r \<mapsto> \<lparr>val = b, valid_to = wall_clock h (ticks w) + cachetime c\<rparr>)"
  by (simp add: FeatureCache_set_def datetime_now_def)

lemma cached_state [simp]:
  "cached \<lparr>sharedInstance = Some c, world = w\<rparr> = cache c"
  by (simp add: cached_def)

lemma has_requirement_unregistered:
  assumes "\<not> cache_hit h r s" and "get_requirement_method self r = None"
  shows "has_requirement self h r s =
     Some (Inr False,
       \<lparr>sharedInstance = Some (fst (FeatureCache_set h (fst (getSharedInstance s)) r False
            (logger ERROR (''detection of requirement '' @ r
                             @ '' not implement. please fix in code!'')
               (snd (FeatureCache_has h (fst (getSharedInstance s)) r (world s)))))),
        world = snd (FeatureCache_set h (fst (getSharedInstance s)) r False
            (logger ERROR (''detection of requirement '' @ r
                             @ '' not implement. please fix in code!'')
               (snd (FeatureCache_has h (fst (getSharedInstance s)) r (world s)))))\<rparr>)"
  unfolding has_requirement_miss [OF assms(1)] assms(2)
  by (simp only: Let_def split_beta option.case sum.case prod.case fst_conv snd_conv
      world_getSharedInstance)

lemma has_requirement_registered:
  assumes "\<not> cache_hit h r s" and "get_requirement_method self r = Some m"
  shows "has_requirement self h r s =
     (case m h (snd (FeatureCache_has h (fst (getSharedInstance s)) r (world s))) of
        None \<Rightarrow> None
      | Some (Inl e, w2) \<Rightarrow> Some (Inl e, (snd (getSharedInstance s))\<lparr>world := w2\<rparr>)
      | Some (Inr result, w2) \<Rightarrow>
          Some (Inr result,
            \<lparr>sharedInstance = Some (fst (FeatureCache_set h (fst (getSharedInstance s)) r result w2)),
             world = snd (FeatureCache_set h (fst (getSharedInstance s)) r result w2)\<rparr>))"
  unfolding has_requirement_miss [OF assms(1)] assms(2)
  by (simp add: Let_def split_beta world_getSharedInstance
      split: option.split sum.split prod.split)

lemma cached_after_has_requirement:
  assumes "has_requirement self h r s = Some (res, s')"
  shows "cached s' = cached s
       \<or> (\<exists>b t. res = Inr b \<and> cached s' = (cached s)(r \<mapsto> \<lparr>val = b, valid_to = t\<rparr>)
            \<and> \<not> cache_hit h r s
            \<and> (get_requirement_method self r = None \<longrightarrow> \<not> b))"
proof (cases "cache_hit h r s")
  case True
  then obtain e where "cached s r = Some e" "wall_clock h (ticks (world s)) \<le> valid_to e"
    by (auto simp: cache_hit_iff split: option.splits)
  from has_requirement_hit [OF this, of self] assms have "s' = s\<lparr>world := (world s)\<lparr>ticks := Suc (ticks (world s))\<rparr>\<rparr>"
    by simp
  then show ?thesis
    by (simp add: cached_world_update)
next
  case False
  show ?thesis
  proof (cases "get_requirement_method self r")
    case None
    from assms have "res = Inr False"
      and "cached s' = (cached s)(r \<mapsto> \<lparr>val = False, valid_to =
            wall_clock h (ticks (logger ERROR (''detection of requirement '' @ r
                             @ '' not implement. please fix in code!'')
               (snd (FeatureCache_has h (fst (getSharedInstance s)) r (world s)))))
            + cachetime (fst (getSharedInstance s))\<rparr>)"
      unfolding has_requirement_unregistered [OF False None]
      by (auto simp add: cache_FeatureCache_set cache_getSharedInstance)
    with False None show ?thesis by blast
  next
    case (Some m)
    show ?thesis
    proof (cases "m h (snd (FeatureCache_has h (fst (getSharedInstance s)) r (world s)))")
      case None
      with assms show ?thesis
        unfolding has_requirement_registered [OF False Some] by simp
    next
      case (Some a)
      obtain x w2 where a: "a = (x, w2)" by (cases a)
      show ?thesis
      proof (cases x)
        case (Inl e)
        with assms Some a have "s' = (snd (getSharedInstance s))\<lparr>world := w2\<rparr>"
          unfolding has_requirement_registered [OF False \<open>get_requirement_method self r = Some m\<close>]
          by simp
        then show ?thesis by (simp add: cached_world_update cached_getSharedInstance)
      next
        case (Inr b)
        with assms Some a have "res = Inr b"
          and "cached s' = (cached s)(r \<mapsto> \<lparr>val = b, valid_to =
            wall_clock h (ticks w2) + cachetime (fst (getSharedInstance s))\<rparr>)"
          unfolding has_requirement_registered [OF False \<open>get_requirement_method self r = Some m\<close>]
          by (auto simp add: cache_FeatureCache_set cache_getSharedInstance)
        with False \<open>get_requirement_method self r = Some m\<close> show ?thesis by auto
      qed
    qed
  qed
qed

lemma reachable_unregistered:
  assumes "reachable self h s" and "get_requirement_method self r = None"
      and "cached s r = Some e"
  shows "\<not> val e"
  using assms
proof (induction arbitrary: e)
  case (start s)
  then show ?case by (simp add: cached_def)
next
  case (call s requirement res s')
  from cached_after_has_requirement [OF call.hyps(2)] show ?case
  proof
    assume "cached s' = cached s"
    with call show ?thesis by simp
  next
    assume "\<exists>b t. res = Inr b \<and> cached s' = (cached s)(requirement \<mapsto> \<lparr>val = b, valid_to = t\<rparr>)
            \<and> \<not> cache_hit h requirement s
            \<and> (get_requirement_method self requirement = None \<longrightarrow> \<not> b)"
    then obtain b t where c: "cached s' = (cached s)(requirement \<mapsto> \<lparr>val = b, valid_to = t\<rparr>)"
      and b: "get_requirement_method self requirement = None \<longrightarrow> \<not> b" by auto
    show ?thesis
    proof (cases "requirement = r")
      case True
      with c b call.prems show ?thesis by auto
    next
      case False
      with c call.prems call.IH show ?thesis by auto
    qed
  qed
next
  case (pass s w)
  then show ?case by (simp add: cached_def)
qed

lemma log_FeatureCache_set:
  "log (snd (FeatureCache_set h c r b w)) = log w"
  by (simp add: FeatureCache_set_def datetime_now_def)

lemma log_FeatureCache_has:
  "log (snd (FeatureCache_has h c r w)) = log w"
  by (simp add: FeatureCache_has_def datetime_now_def split: option.split)

text \<open>
  Claim C3. For a requirement name without a callable \<open>has_<name>\<close> attribute, in every
  state the program can reach, \<open>has_requirement\<close> returns false and does not raise, the
  cache holds the value false for the name afterwards, and when the call is not answered
  from the cache it logs an error that names the requirement.
\<close>

theorem unregistered_requirement:
  assumes "get_requirement_method self r = None" and "reachable self h s"
  shows "\<exists>s'. has_requirement self h r s = Some (Inr False, s')
            \<and> (\<exists>e. cached s' r = Some e \<and> \<not> val e)
            \<and> (\<not> cache_hit h r s \<longrightarrow> log (world s') = log (world s) @ [error_record r])"
proof (cases "cache_hit h r s")
  case True
  then obtain e where e: "cached s r = Some e" "wall_clock h (ticks (world s)) \<le> valid_to e"
    by (auto simp: cache_hit_iff split: option.splits)
  from reachable_unregistered [OF assms(2,1) e(1)] have "\<not> val e" .
  with has_requirement_hit [OF e, of self] e(1) True show ?thesis
    by (simp add: cached_world_update)
next
  case False
  have "log (logger ERROR (''detection of requirement '' @ r
                             @ '' not implement. please fix in code!'')
               (snd (FeatureCache_has h (fst (getSharedInstance s)) r (world s))))
        = log (world s) @ [error_record r]"
    unfolding logger_def error_record_def by (simp add: log_FeatureCache_has)
  then show ?thesis
    unfolding has_requirement_unregistered [OF False assms(1)]
    by (simp add: False cache_FeatureCache_set log_FeatureCache_set)
qed

theorem unregistered_requirement_witness:
  "\<exists>s'. has_requirement FeatureDetector ticking_os ''gnuradio'' (state0 ()) = Some (Inr False, s')
      \<and> (\<exists>e. cached s' ''gnuradio'' = Some e \<and> \<not> val e)
      \<and> log (world s') = [error_record ''gnuradio'']"
proof -
  have m: "get_requirement_method (FeatureDetector :: unit detector) ''gnuradio'' = None"
    by (simp add: get_requirement_method_def FeatureDetector_def)
  have r: "reachable FeatureDetector ticking_os (state0 ())"
    by (rule reachable.start) (simp add: state0_def)
  have miss: "\<not> cache_hit ticking_os ''gnuradio'' (state0 ())"
    by (simp add: cache_hit_iff cached_def state0_def)
  from unregistered_requirement [OF m r] miss show ?thesis
    by (simp add: state0_def world0_def)
qed

lemma user_FeatureCache_has:
  "user (snd (FeatureCache_has h c r w)) = user w"
  by (simp add: FeatureCache_has_def datetime_now_def split: option.split)

lemma user_FeatureCache_set:
  "user (snd (FeatureCache_set h c r b w)) = user w"
  by (simp add: FeatureCache_set_def datetime_now_def)

lemma ticks_FeatureCache_set:
  "ticks (snd (FeatureCache_set h c r b w)) = Suc (ticks w)"
  by (simp add: FeatureCache_set_def datetime_now_def)

lemma cachetime_FeatureCache_set:
  "cachetime (fst (FeatureCache_set h c r b w)) = cachetime c"
  by (simp add: FeatureCache_set_def datetime_now_def)

lemma has_requirement_alternating:
  assumes m: "get_requirement_method self r = Some alternating"
      and miss: "\<not> cache_hit h r s"
  shows "\<exists>s1. has_requirement self h r s = Some (Inr (user (world s)), s1)
           \<and> cached s1 r = Some \<lparr>val = user (world s),
                 valid_to = wall_clock h (ticks (world s1) - 1)
                            + cachetime (fst (getSharedInstance s))\<rparr>
           \<and> sharedInstance s1 \<noteq> None
           \<and> cachetime (fst (getSharedInstance s1)) = cachetime (fst (getSharedInstance s))
           \<and> user (world s1) = (\<not> user (world s))"
  unfolding has_requirement_registered [OF miss m]
  by (simp add: alternating_def user_FeatureCache_has user_FeatureCache_set
      ticks_FeatureCache_set cache_FeatureCache_set cachetime_FeatureCache_set
      getSharedInstance_def)

lemma has_requirements_loop_False:
  "has_requirements_loop self h False requirements s = Some (Inr False, s)"
  by (induction requirements) simp_all

lemma has_requirements_loop_True_iff:
  "(\<exists>s'. has_requirements_loop self h True requirements s = Some (Inr True, s'))
     \<longleftrightarrow> (\<forall>x \<in> set (requirement_results self h requirements s). x = Some (Inr True))"
proof (induction requirements arbitrary: s)
  case Nil
  show ?case by simp
next
  case (Cons r rs)
  show ?case
  proof (cases "has_requirement self h r s")
    case None
    then show ?thesis by simp
  next
    case (Some a)
    obtain res s1 where a: "a = (res, s1)" by (cases a)
    show ?thesis
    proof (cases res)
      case (Inl e)
      with Some a show ?thesis by simp
    next
      case (Inr b)
      show ?thesis
      proof (cases b)
        case True
        with Some a Inr Cons.IH [of s1] show ?thesis by simp
      next
        case False
        with Some a Inr show ?thesis by (simp add: has_requirements_loop_False)
      qed
    qed
  qed
qed

lemma has_requirements_loop_booleans:
  assumes "\<forall>x \<in> set (requirement_results self h requirements s). \<exists>b. x = Some (Inr b)"
  shows "\<exists>s'. has_requirements_loop self h True requirements s
           = Some (Inr (\<forall>x \<in> set (requirement_results self h requirements s). x = Some (Inr True)), s')"
  using assms
proof (induction requirements arbitrary: s)
  case Nil
  show ?case by simp
next
  case (Cons r rs)
  have "\<exists>b s1. has_requirement self h r s = Some (Inr b, s1)"
  proof (cases "has_requirement self h r s")
    case None
    with Cons.prems show ?thesis by simp
  next
    case (Some a)
    obtain res s1 where a: "a = (res, s1)" by (cases a)
    show ?thesis
    proof (cases res)
      case (Inl e)
      with Some a Cons.prems show ?thesis by simp
    next
      case (Inr b)
      with Some a show ?thesis by simp
    qed
  qed
  then obtain b s1 where r: "has_requirement self h r s = Some (Inr b, s1)"
    by blast
  show ?case
  proof (cases b)
    case True
    with r Cons.prems have "\<forall>x \<in> set (requirement_results self h rs s1). \<exists>b. x = Some (Inr b)"
      by simp
    from Cons.IH [OF this] r True show ?thesis by simp
  next
    case False
    with r show ?thesis by (simp add: has_requirements_loop_False)
  qed
qed

text \<open>
  Claim C1. For a feature of the catalog, \<open>is_available\<close> returns true if and only if
  \<open>has_requirement\<close> returns true for every requirement of the feature's list, the calls
  being made one after the other (\<open>requirement_results\<close>); and when every call returns a
  boolean, \<open>is_available\<close> returns the conjunction of the results. For a feature with the
  requirements \<open>[A, B]\<close>, a false result of either makes the feature unavailable.
\<close>

theorem and_composition:
  assumes "map_of features feature = Some requirements"
  shows "((\<exists>s'. is_available self h feature s = Some (Inr True, s'))
            \<longleftrightarrow> (\<forall>x \<in> set (requirement_results self h requirements s). x = Some (Inr True)))
       \<and> ((\<forall>x \<in> set (requirement_results self h requirements s). \<exists>b. x = Some (Inr b))
            \<longrightarrow> (\<exists>s'. is_available self h feature s
                   = Some (Inr (\<forall>x \<in> set (requirement_results self h requirements s).
                                  x = Some (Inr True)), s')))"
  using assms has_requirements_loop_True_iff [of self h requirements s]
    has_requirements_loop_booleans [of self h requirements s]
  by (simp add: is_available_def get_requirements_def has_requirements_def)

lemma two_stubs_results:
  "requirement_results (two_stubs a b) ticking_os [''perseustest'', ''nmux''] (state0 ())
     = [Some (Inr a), Some (Inr b)]"
  by (simp add: has_requirement_def getSharedInstance_def state0_def FeatureCache_init_def
      FeatureCache_has_def get_requirement_method_def two_stubs_def returning_def
      FeatureCache_set_def datetime_now_def world0_def ticking_os_def test_os_def)

theorem and_composition_witness:
  "(\<exists>s'. is_available (two_stubs True True) ticking_os ''perseussdr'' (state0 ())
            = Some (Inr True, s'))
   \<and> (\<exists>s'. is_available (two_stubs False True) ticking_os ''perseussdr'' (state0 ())
            = Some (Inr False, s'))
   \<and> (\<exists>s'. is_available (two_stubs True False) ticking_os ''perseussdr'' (state0 ())
            = Some (Inr False, s'))"
proof -
  have f: "map_of features ''perseussdr'' = Some [''perseustest'', ''nmux'']"
    by (simp add: features_def)
  show ?thesis
    using and_composition [OF f, of "two_stubs True True" ticking_os "state0 ()",
        unfolded two_stubs_results]
      and_composition [OF f, of "two_stubs False True" ticking_os "state0 ()",
        unfolded two_stubs_results]
      and_composition [OF f, of "two_stubs True False" ticking_os "state0 ()",
        unfolded two_stubs_results]
    by auto
qed

text \<open>
  Claim C7, amended. \<open>has(name)\<close> is true if and only if an entry exists for the name and
  the current time is not after the entry's expiry instant: at the instant of the expiry
  itself \<open>has\<close> is still true.
\<close>

theorem has_expiry_inclusive:
  "fst (FeatureCache_has h c name w)
     = (case cache c name of None \<Rightarrow> False | Some e \<Rightarrow> wall_clock h (ticks w) \<le> valid_to e)"
  by (rule FeatureCache_has_iff)

lemma method_perseustest:
  "get_requirement_method FeatureDetector ''perseustest'' = Some has_perseustest"
  by (simp add: get_requirement_method_def FeatureDetector_def)

lemma method_nmux:
  "get_requirement_method FeatureDetector ''nmux'' = Some has_nmux"
  by (simp add: get_requirement_method_def FeatureDetector_def)

lemma has_requirement_first_probe:
  assumes m: "get_requirement_method self r = Some m"
      and c: "cached s r = None"
      and run: "m h (world s) = Some (Inr b, w2)"
  shows "has_requirement self h r s
     = Some (Inr b,
         \<lparr>sharedInstance = Some ((fst (getSharedInstance s))
            \<lparr>cache := (cached s)(r \<mapsto> \<lparr>val = b,
                 valid_to = wall_clock h (ticks w2) + cachetime (fst (getSharedInstance s))\<rparr>)\<rparr>),
          world = w2\<lparr>ticks := Suc (ticks w2)\<rparr>\<rparr>)"
proof -
  have miss: "\<not> cache_hit h r s"
    using c by (simp add: cache_hit_iff)
  have w1: "snd (FeatureCache_has h (fst (getSharedInstance s)) r (world s)) = world s"
    using c by (simp add: FeatureCache_has_def cache_getSharedInstance)
  show ?thesis
    unfolding has_requirement_registered [OF miss m] w1 run
    by (simp add: FeatureCache_set_def datetime_now_def cache_getSharedInstance)
qed

lemma perseustest_not_found:
  "has_requirement FeatureDetector ticking_os ''perseustest'' (state0 ())
     = Some (Inr False,
         \<lparr>sharedInstance = Some \<lparr>cache = [''perseustest'' \<mapsto> \<lparr>val = False,
              valid_to = 1000 + timedelta_hours 2\<rparr>], cachetime = timedelta_hours 2\<rparr>,
          world = (world0 ())\<lparr>ticks := 1,
            popen_calls := [command_popen_args ticking_os [''perseustest'', ''-h'']]\<rparr>\<rparr>)"
proof -
  have c: "cached (state0 ()) ''perseustest'' = None"
    by (simp add: cached_def state0_def)
  have run: "has_perseustest ticking_os (world (state0 ()))
      = Some (Inr False, (world0 ())\<lparr>popen_calls :=
           [command_popen_args ticking_os [''perseustest'', ''-h'']]\<rparr>)"
    unfolding has_perseustest_def
    using command_is_runnable_not_found [where h = ticking_os and command = "''perseustest -h''"
        and cmd = "[''perseustest'', ''-h'']" and w = "world0 ()" and expected_result = None]
    by (simp add: ticking_os_def test_os_def world0_def state0_def)
  show ?thesis
    unfolding has_requirement_first_probe [OF method_perseustest c run]
    by (simp add: getSharedInstance_def state0_def FeatureCache_init_def cached_def
        world0_def ticking_os_def test_os_def)
qed

lemma nmux_not_found:
  "has_requirement FeatureDetector ticking_os ''nmux''
     \<lparr>sharedInstance = Some \<lparr>cache = [''perseustest'' \<mapsto> \<lparr>val = False,
              valid_to = 1000 + timedelta_hours 2\<rparr>], cachetime = timedelta_hours 2\<rparr>,
          world = (world0 ())\<lparr>ticks := 1,
            popen_calls := [command_popen_args ticking_os [''perseustest'', ''-h'']]\<rparr>\<rparr>
     = Some (Inr False,
         \<lparr>sharedInstance = Some \<lparr>cache = [''perseustest'' \<mapsto> \<lparr>val = False,
              valid_to = 1000 + timedelta_hours 2\<rparr>, ''nmux'' \<mapsto> \<lparr>val = False,
              valid_to = 1001 + timedelta_hours 2\<rparr>], cachetime = timedelta_hours 2\<rparr>,
          world = (world0 ())\<lparr>ticks := 2,
            popen_calls := [command_popen_args ticking_os [''perseustest'', ''-h''],
                            command_popen_args ticking_os [''nmux'', ''--help'']]\<rparr>\<rparr>)"
    (is "has_requirement _ _ _ ?s1 = _")
proof -
  have c: "cached ?s1 ''nmux'' = None"
    by (simp add: cached_def)
  have run: "has_nmux ticking_os (world ?s1)
      = Some (Inr False, (world0 ())\<lparr>ticks := 1, popen_calls :=
           [command_popen_args ticking_os [''perseustest'', ''-h''],
            command_popen_args ticking_os [''nmux'', ''--help'']]\<rparr>)"
    unfolding has_nmux_def
    using command_is_runnable_not_found [where h = ticking_os and command = "''nmux --help''"
        and cmd = "[''nmux'', ''--help'']" and expected_result = None
        and w = "(world0 ())\<lparr>ticks := 1,
            popen_calls := [command_popen_args ticking_os [''perseustest'', ''-h'']]\<rparr>"]
    by (simp add: ticking_os_def test_os_def world0_def)
  show ?thesis
    unfolding has_requirement_first_probe [OF method_nmux c run]
    by (simp add: getSharedInstance_def cached_def world0_def ticking_os_def test_os_def)
qed

lemma perseussdr_requirements:
  "map_of features ''perseussdr'' = Some [''perseustest'', ''nmux'']"
  by (simp add: features_def)

lemma perseussdr_unavailable:
  "is_available FeatureDetector ticking_os ''perseussdr'' (state0 ())
     = Some (Inr False,
         \<lparr>sharedInstance = Some \<lparr>cache = [''perseustest'' \<mapsto> \<lparr>val = False,
              valid_to = 1000 + timedelta_hours 2\<rparr>], cachetime = timedelta_hours 2\<rparr>,
          world = (world0 ())\<lparr>ticks := 1,
            popen_calls := [command_popen_args ticking_os [''perseustest'', ''-h'']]\<rparr>\<rparr>)"
  by (simp add: is_available_def get_requirements_def perseussdr_requirements
      has_requirements_def perseustest_not_found)

lemma perseussdr_check_all:
  "spec_check_all FeatureDetector ticking_os [''perseustest'', ''nmux''] (state0 ())
     = Some \<lparr>sharedInstance = Some \<lparr>cache = [''perseustest'' \<mapsto> \<lparr>val = False,
              valid_to = 1000 + timedelta_hours 2\<rparr>, ''nmux'' \<mapsto> \<lparr>val = False,
              valid_to = 1001 + timedelta_hours 2\<rparr>], cachetime = timedelta_hours 2\<rparr>,
          world = (world0 ())\<lparr>ticks := 2,
            popen_calls := [command_popen_args ticking_os [''perseustest'', ''-h''],
                            command_popen_args ticking_os [''nmux'', ''--help'']]\<rparr>\<rparr>"
  by (simp only: spec_check_all.simps perseustest_not_found nmux_not_found
      option.case prod.case sum.case)

text \<open>
  Claim C5 says that within one evaluation of \<open>is_available\<close>, \<open>has_requirement\<close> is
  invoked for every requirement of the list even after one of them was false
  (\<open>spec_check_all\<close>). For the feature \<open>perseussdr\<close> on a host without any of the probed
  commands, the first requirement \<open>perseustest\<close> is false and the code never probes the
  second one, \<open>nmux\<close>: checking both would leave another spawned command and another
  cache entry.
\<close>

theorem short_circuit_counterexample:
  "\<not> spec_checks_every_requirement FeatureDetector ticking_os ''perseussdr'' (state0 ())"
proof
  assume "spec_checks_every_requirement FeatureDetector ticking_os ''perseussdr'' (state0 ())"
  then have "map_option snd (is_available FeatureDetector ticking_os ''perseussdr'' (state0 ()))
      = spec_check_all FeatureDetector ticking_os [''perseustest'', ''nmux''] (state0 ())"
    by (simp add: spec_checks_every_requirement_def perseussdr_requirements)
  then have "map_option spawned_commands
        (map_option snd (is_available FeatureDetector ticking_os ''perseussdr'' (state0 ())))
      = map_option spawned_commands
        (spec_check_all FeatureDetector ticking_os [''perseustest'', ''nmux''] (state0 ()))"
    by (rule arg_cong)
  then show False
    unfolding perseussdr_unavailable perseussdr_check_all
    by (simp add: spawned_commands_def)
qed

lemma has_requirements_loop_until_false:
  "has_requirements_loop self h True requirements s
     = spec_check_until_false self h requirements s"
proof (induction requirements arbitrary: s)
  case Nil
  show ?case by simp
next
  case (Cons r rs)
  show ?case
    by (simp add: Cons.IH has_requirements_loop_False
        split: option.split sum.split prod.split)
qed

text \<open>
  Claim C5, amended. Within one evaluation of \<open>is_available\<close> for a feature of the
  catalog, \<open>has_requirement\<close> is invoked for the requirements in the declared order up to
  and including the first one that is false; the requirements after it are not checked,
  and when none is false all of them are checked (\<open>spec_check_until_false\<close>). The result
  and the state afterwards are those of these calls.
\<close>

theorem requirements_short_circuit:
  assumes "map_of features feature = Some requirements"
  shows "is_available self h feature s = spec_check_until_false self h requirements s"
  using assms
  by (simp add: is_available_def get_requirements_def has_requirements_def
      has_requirements_loop_until_false)

theorem requirements_short_circuit_witness:
  "map_of features ''perseussdr'' = Some [''perseustest'', ''nmux'']
   \<and> is_available FeatureDetector ticking_os ''perseussdr'' (state0 ())
       = spec_check_until_false FeatureDetector ticking_os [''perseustest'', ''nmux''] (state0 ())
   \<and> map_option (\<lambda>(r, s'). (r, spawned_commands s'))
        (spec_check_until_false FeatureDetector ticking_os [''perseustest'', ''nmux''] (state0 ()))
       = Some (Inr False, [[''perseustest'', ''-h'']])"
proof -
  have "spec_check_until_false FeatureDetector ticking_os [''perseustest'', ''nmux''] (state0 ())
      = Some (Inr False,
         \<lparr>sharedInstance = Some \<lparr>cache = [''perseustest'' \<mapsto> \<lparr>val = False,
              valid_to = 1000 + timedelta_hours 2\<rparr>], cachetime = timedelta_hours 2\<rparr>,
          world = (world0 ())\<lparr>ticks := 1,
            popen_calls := [command_popen_args ticking_os [''perseustest'', ''-h'']]\<rparr>\<rparr>)"
    by (simp only: spec_check_until_false.simps perseustest_not_found
        option.case prod.case sum.case if_False)
  then have "map_option (\<lambda>(r, s'). (r, spawned_commands s'))
        (spec_check_until_false FeatureDetector ticking_os [''perseustest'', ''nmux''] (state0 ()))
       = Some (Inr False, [[''perseustest'', ''-h'']])"
    by (simp add: spawned_commands_def command_popen_args_def)
  with requirements_short_circuit [OF perseussdr_requirements, of FeatureDetector ticking_os "state0 ()"]
    perseussdr_requirements
  show ?thesis by simp
qed

lemma has_requirement_raises:
  assumes m: "get_requirement_method self r = Some m"
      and c: "cached s r = None"
      and run: "m h (world s) = Some (Inl e, w2)"
  shows "has_requirement self h r s = Some (Inl e, (snd (getSharedInstance s))\<lparr>world := w2\<rparr>)"
proof -
  have miss: "\<not> cache_hit h r s"
    using c by (simp add: cache_hit_iff)
  have w1: "snd (FeatureCache_has h (fst (getSharedInstance s)) r (world s)) = world s"
    using c by (simp add: FeatureCache_has_def cache_getSharedInstance)
  show ?thesis
    unfolding has_requirement_registered [OF miss m] w1 run
    by simp
qed

lemma method_rtl_connector:
  "get_requirement_method FeatureDetector ''rtl_connector'' = Some has_rtl_connector"
  by (simp add: get_requirement_method_def FeatureDetector_def)

lemma rtl_connector_times_out:
  "has_rtl_connector slow_os (w :: 'x world)
     = Some (Inl TimeoutExpired,
         w\<lparr>popen_calls := popen_calls w @
            [\<lparr>args = [''rtl_connector'', ''--version''], stdin = Inherit, stdout = PIPE,
              stderr = Inherit, cwd = None, env = None\<rparr>]\<rparr>)"
  by (simp add: has_rtl_connector_def check_owrx_connector_def check_connector_def Popen_def
      slow_os_def test_os_def slow_process_def readline_def re_match_version_def
      except_return_def Let_def)

lemma rtl_sdr_requirements:
  "map_of features ''rtl_sdr'' = Some [''rtl_connector'']"
  by (simp add: features_def)

text \<open>
  Claim C2 says that for a feature of the catalog \<open>is_available\<close> returns a boolean and
  raises nothing. The feature \<open>rtl_sdr\<close> is in the catalog; on a host where
  \<^verbatim>\<open>rtl_connector --version\<close> prints its version line and then does not exit within one
  second, \<^verbatim>\<open>process.wait(1)\<close> in \<^verbatim>\<open>_check_connector\<close> raises \<^verbatim>\<open>TimeoutExpired\<close>, which
  nothing catches: \<open>is_available\<close> raises it.
\<close>

theorem connector_timeout_escapes:
  "map_of features ''rtl_sdr'' = Some [''rtl_connector'']
   \<and> map_option fst (is_available FeatureDetector slow_os ''rtl_sdr'' (state0 ()))
       = Some (Inl TimeoutExpired)"
proof -
  have c: "cached (state0 ()) ''rtl_connector'' = None"
    by (simp add: cached_def state0_def)
  have "has_requirement FeatureDetector slow_os ''rtl_connector'' (state0 ())
      = Some (Inl TimeoutExpired, (snd (getSharedInstance (state0 ())))\<lparr>world :=
          (world (state0 ()))\<lparr>popen_calls := popen_calls (world (state0 ())) @
            [\<lparr>args = [''rtl_connector'', ''--version''], stdin = Inherit, stdout = PIPE,
              stderr = Inherit, cwd = None, env = None\<rparr>]\<rparr>\<rparr>)"
    by (rule has_requirement_raises [OF method_rtl_connector c rtl_connector_times_out])
  then show ?thesis
    by (simp add: is_available_def get_requirements_def rtl_sdr_requirements
        has_requirements_def)
qed

lemma unknown_feature_raises:
  "map_of features feature = None \<Longrightarrow>
   is_available self h feature s
     = Some (Inl (UnknownFeatureException
         (''Feature '' @ [CHR 0x22] @ feature @ [CHR 0x22] @ '' is not known.'')), s)"
  by (simp add: is_available_def get_requirements_def)

lemma fst_getSharedInstance_world:
  "fst (getSharedInstance (s\<lparr>world := w\<rparr>)) = fst (getSharedInstance s)"
  by (simp add: getSharedInstance_def split: option.split)

lemma fst_getSharedInstance_Some:
  "fst (getSharedInstance \<lparr>sharedInstance = Some c, world = w\<rparr>) = c"
  by (simp add: getSharedInstance_def)

lemma fst_getSharedInstance_idem:
  "fst (getSharedInstance (snd (getSharedInstance s))) = fst (getSharedInstance s)"
  by (simp add: getSharedInstance_def split: option.split)

lemma cachetime_has_requirement:
  assumes "has_requirement self h r s = Some (res, s')"
  shows "cachetime (fst (getSharedInstance s')) = cachetime (fst (getSharedInstance s))"
proof (cases "cache_hit h r s")
  case True
  then obtain e where "cached s r = Some e" "wall_clock h (ticks (world s)) \<le> valid_to e"
    by (auto simp: cache_hit_iff split: option.splits)
  from has_requirement_hit [OF this, of self] assms
  have "s' = s\<lparr>world := (world s)\<lparr>ticks := Suc (ticks (world s))\<rparr>\<rparr>"
    by simp
  then show ?thesis
    by (simp only: fst_getSharedInstance_world)
next
  case False
  show ?thesis
  proof (cases "get_requirement_method self r")
    case None
    from assms have "s' = \<lparr>sharedInstance = Some (fst (FeatureCache_set h (fst (getSharedInstance s)) r False
            (logger ERROR (''detection of requirement '' @ r
                             @ '' not implement. please fix in code!'')
               (snd (FeatureCache_has h (fst (getSharedInstance s)) r (world s)))))),
        world = snd (FeatureCache_set h (fst (getSharedInstance s)) r False
            (logger ERROR (''detection of requirement '' @ r
                             @ '' not implement. please fix in code!'')
               (snd (FeatureCache_has h (fst (getSharedInstance s)) r (world s)))))\<rparr>"
      unfolding has_requirement_unregistered [OF False None] by simp
    then show ?thesis
      by (simp only: fst_getSharedInstance_Some cachetime_FeatureCache_set)
  next
    case (Some m)
    show ?thesis
    proof (cases "m h (snd (FeatureCache_has h (fst (getSharedInstance s)) r (world s)))")
      case None
      with assms show ?thesis
        unfolding has_requirement_registered [OF False Some] by simp
    next
      case run: (Some out)
      obtain x w2 where out: "out = (x, w2)" by (cases out)
      show ?thesis
      proof (cases x)
        case (Inl e)
        with assms run out have "s' = (snd (getSharedInstance s))\<lparr>world := w2\<rparr>"
          unfolding has_requirement_registered [OF False Some] by simp
        then show ?thesis
          by (simp only: fst_getSharedInstance_world fst_getSharedInstance_idem)
      next
        case (Inr b)
        with assms run out have "s' =
            \<lparr>sharedInstance = Some (fst (FeatureCache_set h (fst (getSharedInstance s)) r b w2)),
             world = snd (FeatureCache_set h (fst (getSharedInstance s)) r b w2)\<rparr>"
          unfolding has_requirement_registered [OF False Some] by simp
        then show ?thesis
          by (simp only: fst_getSharedInstance_Some cachetime_FeatureCache_set)
      qed
    qed
  qed
qed

lemma reachable_cachetime:
  assumes "reachable self h s"
  shows "cachetime (fst (getSharedInstance s)) = timedelta_hours 2"
  using assms
proof induction
  case (start s)
  then show ?case
    by (simp add: getSharedInstance_def FeatureCache_init_def)
next
  case (call s requirement r s')
  from cachetime_has_requirement [OF call.hyps(2)] call.IH show ?case
    by simp
next
  case (pass s w)
  then show ?case
    by (simp only: fst_getSharedInstance_world)
qed

lemma has_requirement_ttl:
  assumes m: "get_requirement_method self r = Some alternating"
      and reach: "reachable self h s"
      and miss: "\<not> cache_hit h r s"
  shows "\<exists>s1 e. has_requirement self h r s = Some (Inr (user (world s)), s1)
           \<and> cached s1 r = Some e \<and> val e = user (world s)
           \<and> valid_to e = wall_clock h (ticks (world s1) - 1) + timedelta_hours 2
           \<and> user (world s1) = (\<not> user (world s))
           \<and> (\<forall>w. wall_clock h (ticks w) \<le> valid_to e \<longrightarrow>
                 has_requirement self h r (s1\<lparr>world := w\<rparr>)
                   = Some (Inr (user (world s)), s1\<lparr>world := w\<lparr>ticks := Suc (ticks w)\<rparr>\<rparr>))
           \<and> (\<forall>w. valid_to e < wall_clock h (ticks w) \<longrightarrow>
                 (\<exists>s2. has_requirement self h r (s1\<lparr>world := w\<rparr>) = Some (Inr (user w), s2)
                    \<and> user (world s2) = (\<not> user w)))"
proof -
  note two = reachable_cachetime [OF reach]
  from has_requirement_alternating [OF m miss] two obtain s1 where
    first: "has_requirement self h r s = Some (Inr (user (world s)), s1)"
    and c: "cached s1 r = Some \<lparr>val = user (world s),
              valid_to = wall_clock h (ticks (world s1) - 1) + timedelta_hours 2\<rparr>"
    and u: "user (world s1) = (\<not> user (world s))"
    by auto
  let ?e = "\<lparr>val = user (world s),
              valid_to = wall_clock h (ticks (world s1) - 1) + timedelta_hours 2\<rparr>"
  have within: "has_requirement self h r (s1\<lparr>world := w\<rparr>)
                   = Some (Inr (user (world s)), s1\<lparr>world := w\<lparr>ticks := Suc (ticks w)\<rparr>\<rparr>)"
    if "wall_clock h (ticks w) \<le> valid_to ?e" for w
    using has_requirement_hit [of "s1\<lparr>world := w\<rparr>" r ?e h self] c that
    by (simp add: cached_world_update)
  have after: "\<exists>s2. has_requirement self h r (s1\<lparr>world := w\<rparr>) = Some (Inr (user w), s2)
                    \<and> user (world s2) = (\<not> user w)"
    if "valid_to ?e < wall_clock h (ticks w)" for w
  proof -
    have "\<not> cache_hit h r (s1\<lparr>world := w\<rparr>)"
      using c that by (simp add: cache_hit_iff cached_world_update)
    from has_requirement_alternating [OF m this] show ?thesis by auto
  qed
  from first c u within after show ?thesis
    by (intro exI [of _ s1] exI [of _ ?e]) simp
qed

text \<open>
  Claim C4. In every state the program can reach, the shared cache has the duration that
  \<^verbatim>\<open>__init__\<close> assigns, two hours (\<open>reachable_cachetime\<close>): \<open>FeatureCache.set\<close> on it stores
  the value with the expiry instant \<open>now + 2 hours\<close>, replacing the entry of the name. For
  a requirement whose method alternates between true and false, a call of
  \<open>has_requirement\<close> that the cache does not answer returns the method's value and stores
  it with the expiry instant two hours after the clock reading of the call; every later
  call whose clock reading is not after the expiry instant returns that same value and
  leaves the method's state untouched (the method is not invoked); a call whose clock
  reading is after the expiry instant invokes the method again.
\<close>

theorem cache_ttl:
  assumes m: "get_requirement_method self r = Some alternating"
      and reach: "reachable self h s"
      and miss: "\<not> cache_hit h r s"
  shows "cache (fst (FeatureCache_set h (fst (getSharedInstance s)) name v w0))
              = (cached s)(name \<mapsto> \<lparr>val = v,
                   valid_to = wall_clock h (ticks w0) + timedelta_hours 2\<rparr>)
       \<and> (\<exists>s1 e. has_requirement self h r s = Some (Inr (user (world s)), s1)
           \<and> cached s1 r = Some e \<and> val e = user (world s)
           \<and> valid_to e = wall_clock h (ticks (world s1) - 1) + timedelta_hours 2
           \<and> user (world s1) = (\<not> user (world s))
           \<and> (\<forall>w. wall_clock h (ticks w) \<le> valid_to e \<longrightarrow>
                 has_requirement self h r (s1\<lparr>world := w\<rparr>)
                   = Some (Inr (user (world s)), s1\<lparr>world := w\<lparr>ticks := Suc (ticks w)\<rparr>\<rparr>))
           \<and> (\<forall>w. valid_to e < wall_clock h (ticks w) \<longrightarrow>
                 (\<exists>s2. has_requirement self h r (s1\<lparr>world := w\<rparr>) = Some (Inr (user w), s2)
                    \<and> user (world s2) = (\<not> user w))))"
proof (intro conjI)
  show "cache (fst (FeatureCache_set h (fst (getSharedInstance s)) name v w0))
              = (cached s)(name \<mapsto> \<lparr>val = v,
                   valid_to = wall_clock h (ticks w0) + timedelta_hours 2\<rparr>)"
    by (simp only: cache_FeatureCache_set reachable_cachetime [OF reach] cache_getSharedInstance)
qed (rule has_requirement_ttl [OF assms])

theorem cache_ttl_witness:
  "\<exists>s3.
      has_requirement stub_detector expiry_os ''stub'' (state0 True)
        = Some (Inr True, \<lparr>sharedInstance = Some \<lparr>cache = [''stub'' \<mapsto> \<lparr>val = True, valid_to = timedelta_hours 2\<rparr>],
                              cachetime = timedelta_hours 2\<rparr>,
          world = \<lparr>ticks = 1, log = [], popen_calls = [], kills = [], user = False\<rparr>\<rparr>)
    \<and> wall_clock expiry_os 1 = timedelta_hours 2
    \<and> has_requirement stub_detector expiry_os ''stub''
        \<lparr>sharedInstance = Some \<lparr>cache = [''stub'' \<mapsto> \<lparr>val = True, valid_to = timedelta_hours 2\<rparr>],
                              cachetime = timedelta_hours 2\<rparr>,
          world = \<lparr>ticks = 1, log = [], popen_calls = [], kills = [], user = False\<rparr>\<rparr>
        = Some (Inr True, \<lparr>sharedInstance = Some \<lparr>cache = [''stub'' \<mapsto> \<lparr>val = True, valid_to = timedelta_hours 2\<rparr>],
                              cachetime = timedelta_hours 2\<rparr>,
          world = \<lparr>ticks = 2, log = [], popen_calls = [], kills = [], user = False\<rparr>\<rparr>)
    \<and> wall_clock expiry_os 2 = timedelta_hours 2 + 1
    \<and> has_requirement stub_detector expiry_os ''stub''
        \<lparr>sharedInstance = Some \<lparr>cache = [''stub'' \<mapsto> \<lparr>val = True, valid_to = timedelta_hours 2\<rparr>],
                              cachetime = timedelta_hours 2\<rparr>,
          world = \<lparr>ticks = 2, log = [], popen_calls = [], kills = [], user = False\<rparr>\<rparr>
        = Some (Inr False, s3)
    \<and> user (world s3) = True"
proof -
  let ?S1 = "\<lparr>sharedInstance = Some \<lparr>cache = [''stub'' \<mapsto> \<lparr>val = True, valid_to = timedelta_hours 2\<rparr>],
                              cachetime = timedelta_hours 2\<rparr>,
          world = \<lparr>ticks = 1, log = [], popen_calls = [], kills = [], user = False\<rparr>\<rparr>"
  let ?S2 = "\<lparr>sharedInstance = Some \<lparr>cache = [''stub'' \<mapsto> \<lparr>val = True, valid_to = timedelta_hours 2\<rparr>],
                              cachetime = timedelta_hours 2\<rparr>,
          world = \<lparr>ticks = 2, log = [], popen_calls = [], kills = [], user = False\<rparr>\<rparr>"
  have m: "get_requirement_method stub_detector ''stub'' = Some alternating"
    by (simp add: get_requirement_method_def stub_detector_def)
  have reach: "reachable stub_detector expiry_os (state0 True)"
    by (rule reachable.start) (simp add: state0_def)
  have c: "cached (state0 True) ''stub'' = None"
    by (simp add: cached_def state0_def)
  then have miss: "\<not> cache_hit expiry_os ''stub'' (state0 True)"
    by (simp add: cache_hit_iff)
  have run: "alternating expiry_os (world (state0 True))
      = Some (Inr True, \<lparr>ticks = 0, log = [], popen_calls = [], kills = [], user = False\<rparr>)"
    by (simp add: alternating_def state0_def world0_def)
  have first: "has_requirement stub_detector expiry_os ''stub'' (state0 True) = Some (Inr True, ?S1)"
    unfolding has_requirement_first_probe [OF m c run]
    by (simp add: getSharedInstance_def state0_def FeatureCache_init_def cached_def
        expiry_os_def test_os_def)
  have u0: "user (world (state0 True)) = True"
    by (simp add: state0_def world0_def)
  from cache_ttl [OF m reach miss, THEN conjunct2, unfolded u0 not_True_eq_False] obtain s1 where
    "\<exists>e. has_requirement stub_detector expiry_os ''stub'' (state0 True) = Some (Inr True, s1)
       \<and> cached s1 ''stub'' = Some e \<and> val e = True
       \<and> valid_to e = wall_clock expiry_os (ticks (world s1) - 1) + timedelta_hours 2
       \<and> user (world s1) = False
       \<and> (\<forall>w. wall_clock expiry_os (ticks w) \<le> valid_to e \<longrightarrow>
                 has_requirement stub_detector expiry_os ''stub'' (s1\<lparr>world := w\<rparr>)
                   = Some (Inr True, s1\<lparr>world := w\<lparr>ticks := Suc (ticks w)\<rparr>\<rparr>))
       \<and> (\<forall>w. valid_to e < wall_clock expiry_os (ticks w) \<longrightarrow>
                 (\<exists>s2. has_requirement stub_detector expiry_os ''stub'' (s1\<lparr>world := w\<rparr>)
                          = Some (Inr (user w), s2) \<and> user (world s2) = (\<not> user w)))" ..
  then obtain e where all:
    "has_requirement stub_detector expiry_os ''stub'' (state0 True) = Some (Inr True, s1)
       \<and> cached s1 ''stub'' = Some e \<and> val e = True
       \<and> valid_to e = wall_clock expiry_os (ticks (world s1) - 1) + timedelta_hours 2
       \<and> user (world s1) = False
       \<and> (\<forall>w. wall_clock expiry_os (ticks w) \<le> valid_to e \<longrightarrow>
                 has_requirement stub_detector expiry_os ''stub'' (s1\<lparr>world := w\<rparr>)
                   = Some (Inr True, s1\<lparr>world := w\<lparr>ticks := Suc (ticks w)\<rparr>\<rparr>))
       \<and> (\<forall>w. valid_to e < wall_clock expiry_os (ticks w) \<longrightarrow>
                 (\<exists>s2. has_requirement stub_detector expiry_os ''stub'' (s1\<lparr>world := w\<rparr>)
                          = Some (Inr (user w), s2) \<and> user (world s2) = (\<not> user w)))" ..
  from all have
    s1: "has_requirement stub_detector expiry_os ''stub'' (state0 True) = Some (Inr True, s1)"
    and vt: "valid_to e = wall_clock expiry_os (ticks (world s1) - 1) + timedelta_hours 2"
    and within: "\<forall>w. wall_clock expiry_os (ticks w) \<le> valid_to e \<longrightarrow>
                 has_requirement stub_detector expiry_os ''stub'' (s1\<lparr>world := w\<rparr>)
                   = Some (Inr True, s1\<lparr>world := w\<lparr>ticks := Suc (ticks w)\<rparr>\<rparr>)"
    and after: "\<forall>w. valid_to e < wall_clock expiry_os (ticks w) \<longrightarrow>
                 (\<exists>s2. has_requirement stub_detector expiry_os ''stub'' (s1\<lparr>world := w\<rparr>)
                          = Some (Inr (user w), s2) \<and> user (world s2) = (\<not> user w))"
    by - (elim conjE, assumption)+
  from s1 first have s1_eq: "s1 = ?S1" by simp
  have expiry: "valid_to e = timedelta_hours 2"
    unfolding vt s1_eq by (simp add: expiry_os_def test_os_def)
  have at_expiry: "wall_clock expiry_os 1 = timedelta_hours 2"
    by (simp add: expiry_os_def test_os_def)
  have past_expiry: "wall_clock expiry_os 2 = timedelta_hours 2 + 1"
    by (simp add: expiry_os_def test_os_def)
  from within [rule_format, of "\<lparr>ticks = 1, log = [], popen_calls = [], kills = [], user = False\<rparr>"]
  have second: "has_requirement stub_detector expiry_os ''stub'' ?S1 = Some (Inr True, ?S2)"
    unfolding expiry s1_eq by (simp add: expiry_os_def test_os_def numeral_2_eq_2)
  from after [rule_format, of "\<lparr>ticks = 2, log = [], popen_calls = [], kills = [], user = False\<rparr>"]
  obtain s3 where "has_requirement stub_detector expiry_os ''stub'' ?S2 = Some (Inr False, s3)"
    "user (world s3) = True"
    unfolding expiry s1_eq by (auto simp: expiry_os_def test_os_def numeral_2_eq_2)
  with first second at_expiry past_expiry show ?thesis by blast
qed

end
